theory Spec2Isabelle
  imports
    Complex_Main
    "HOL-Library.AList"
    "HOL-Library.Sublist"
    "HOL-Library.Char_ord"
    "HOL-Library.List_Lexorder"
    "HOL-Library.Product_Lexorder"
begin

section \<open>Python values shared by the model\<close>

text \<open>
  The dashboard is Python. Exceptions are values of \<open>error\<close>; a function that can
  raise returns \<open>error + 'a\<close> with \<open>Inl\<close> for the exception. A dictionary is an
  association list in insertion order whose keys are distinct (\<open>wf_dict\<close>):
  \<open>map_of\<close> reads an entry, \<open>AList.update\<close> is the assignment \<^verbatim>\<open>d[k] = v\<close>
  (an existing key keeps its place, a new key goes to the end) and \<open>pop\<close> is
  \<^verbatim>\<open>d.pop(k)\<close>.
\<close>

datatype error =
    KeyError
  | IndexError
  | ValueError
  | TypeError
  | AttributeError
  | AssertionError string

type_synonym ('k, 'v) dict = "('k \<times> 'v) list"

definition wf_dict :: "('k, 'v) dict \<Rightarrow> bool" where
  "wf_dict d = distinct (map fst d)"

definition keys :: "('k, 'v) dict \<Rightarrow> 'k list" where
  "keys d = map fst d"

definition pop :: "'k \<Rightarrow> ('k, 'v) dict \<Rightarrow> error + ('k, 'v) dict" where
  "pop k d = (case map_of d k of None \<Rightarrow> Inl KeyError | Some _ \<Rightarrow> Inr (AList.delete k d))"

text \<open>A callback output is either a new value or Dash's \<^verbatim>\<open>no_update\<close>.\<close>

datatype 'a dash_output = no_update | Update 'a

section \<open>Combining the dataset store with the real-time store\<close>

text \<open>
  \<^verbatim>\<open>data_utils.combine_data_dicts\<close>: the loop assigns every entry of \<open>data2\<close> into
  \<open>data1\<close> and returns \<open>data1\<close>, the object it was given; the model returns its new
  contents.
\<close>

fun combine_data_dicts :: "('k, 'v) dict \<Rightarrow> ('k, 'v) dict \<Rightarrow> ('k, 'v) dict" where
  "combine_data_dicts data1 [] = data1"
| "combine_data_dicts data1 ((key, v) # data2) =
     combine_data_dicts (AList.update key v data1) data2"

text \<open>
  \<^verbatim>\<open>pagina_data_laden.dropdown_options\<close>: one option (label, value) per dataset
  name of the combined stores, then the fixed "show nothing" option. The test
  \<^verbatim>\<open>data is {}\<close> compares identity with a fresh dictionary and is never true, so the
  branch returning an empty, disabled dropdown is never taken.
\<close>

definition dropdown_options ::
  "(string, 'v) dict \<Rightarrow> (string, 'v) dict \<Rightarrow> (string \<times> string) list \<times> bool" where
  "dropdown_options data rt_data =
     (let data = combine_data_dicts data rt_data;
          options = map (\<lambda>k. (k, k)) (keys data)
      in (options @ [(''Laat geen data zien'', ''Leeg'')], False))"

section \<open>Deleting datasets\<close>

text \<open>\<^verbatim>\<open>pagina_data_laden.standard_datasets\<close>, the datasets documented as not deletable.\<close>

definition standard_datasets :: "string list" where
  "standard_datasets = [''meet je stad'']"

text \<open>
  \<^verbatim>\<open>pagina_data_laden.change_deletable_datasets\<close> fills the dropdown from which the
  dataset to delete is chosen: one option per name of the combined stores.
\<close>

definition change_deletable_datasets ::
  "(string, 'v) dict \<Rightarrow> int \<Rightarrow> (string, 'v) dict \<Rightarrow> (string \<times> string) list" where
  "change_deletable_datasets data n_clicks rt_data =
     (let data = combine_data_dicts data rt_data
      in map (\<lambda>k. (k, k)) (keys data))"

text \<open>
  \<^verbatim>\<open>index.load_real_time_data\<close>, the callback that owns the real-time store. The
  download and spatial join of the sensor data (\<^verbatim>\<open>load_mjs\<close>) reach the network and
  are the parameter \<open>load_mjs\<close>, from the region level to the new store entry;
  \<open>region_type\<close> reads the level a stored entry was loaded for. The callback returns
  the store and the \<^verbatim>\<open>disabled\<close> flag of the timer, or a single \<^verbatim>\<open>no_update\<close>
  (\<open>None\<close>).
\<close>

definition load_real_time_data ::
  "(string \<Rightarrow> 'v) \<Rightarrow> ('v \<Rightarrow> string) \<Rightarrow> string \<Rightarrow> int \<Rightarrow> int \<Rightarrow> string \<Rightarrow> int \<Rightarrow> string \<Rightarrow>
   (string, 's) dict \<Rightarrow> (string, 'v) dict \<Rightarrow> error + ((string, 'v) dict \<times> bool) option" where
  "load_real_time_data load_mjs region_type trigger n_intervals mjs_n_clicks mjs_location_type
     delete_clicks delete_dataset_name shape_data data =
     (if delete_clicks \<noteq> 0 \<and> trigger = ''ed-delete-button-yes'' then
        (case pop delete_dataset_name data of
           Inl e \<Rightarrow> Inl e
         | Inr data' \<Rightarrow> Inr (Some (data', True)))
      else if mjs_n_clicks > 0 \<and> trigger = ''mjs-load-button'' then
        Inr (Some (AList.update ''meet je stad'' (load_mjs mjs_location_type) data, False))
      else if n_intervals > 0 \<and> trigger = ''real-time-trigger'' then
        (if length data = 0 then Inr None
         else case map_of data ''meet je stad'' of
           None \<Rightarrow> Inl KeyError
         | Some entry \<Rightarrow>
             (case map_of shape_data (region_type entry) of
                None \<Rightarrow> Inl KeyError
              | Some _ \<Rightarrow>
                  Inr (Some (AList.update ''meet je stad'' (load_mjs (region_type entry)) data,
                             False))))
      else Inr None)"

section \<open>Inferring the delimiter of a text file\<close>

text \<open>
  \<^verbatim>\<open>data_utils._get_sep\<close>. A line is a list of characters of type \<open>'c\<close>, one per code
  point; the character classes \<^verbatim>\<open>str.isalpha\<close> and \<^verbatim>\<open>str.isdigit\<close> of the runtime
  and the characters newline and tab are parameters. \<open>lines\<close> is the list of lines the
  function reads from the file, or is handed when \<^verbatim>\<open>is_file\<close> is false; fewer than two
  lines make \<^verbatim>\<open>lines[1]\<close> raise. The result carries the warnings raised.

  \<^verbatim>\<open>Counter(first).most_common()\<close> lists each character of the line with its count,
  by descending count; characters with equal counts stay in the order of their first
  occurrence (the sort is stable).
\<close>

definition most_common :: "'c list \<Rightarrow> ('c \<times> nat) list" where
  "most_common xs =
     sort_key (\<lambda>(c, n). - int n) (map (\<lambda>c. (c, count_list xs c)) (rev (remdups (rev xs))))"

fun get_sep_loop ::
  "('c \<Rightarrow> bool) \<Rightarrow> ('c \<Rightarrow> bool) \<Rightarrow> 'c \<Rightarrow> 'c list \<Rightarrow> ('c \<times> nat) list \<Rightarrow> 'c option" where
  "get_sep_loop isalpha isdigit newline second [] = None"
| "get_sep_loop isalpha isdigit newline second ((c, freq) # counter_first) =
     (if isalpha c \<or> isdigit c \<or> c = newline
      then get_sep_loop isalpha isdigit newline second counter_first
      else if count_list second c = freq then Some c
      else get_sep_loop isalpha isdigit newline second counter_first)"

definition get_sep ::
  "('c \<Rightarrow> bool) \<Rightarrow> ('c \<Rightarrow> bool) \<Rightarrow> 'c \<Rightarrow> 'c \<Rightarrow> 'c list list \<Rightarrow> error + ('c \<times> string list)" where
  "get_sep isalpha isdigit newline tab lines =
     (case lines of
        first # second # _ \<Rightarrow>
          (case get_sep_loop isalpha isdigit newline second (most_common first) of
             Some c \<Rightarrow> Inr (c, [])
           | None \<Rightarrow> Inr (tab, [''No separator found. Using tab as separator'']))
      | _ \<Rightarrow> Inl IndexError)"

text \<open>The letters and digits of ASCII, to run the model on concrete lines.\<close>

definition ascii_alpha :: "char \<Rightarrow> bool" where
  "ascii_alpha c = (c \<in> set ''abcdefghijklmnopqrstuvwxyzABCDEFGHIJKLMNOPQRSTUVWXYZ'')"

definition ascii_digit :: "char \<Rightarrow> bool" where
  "ascii_digit c = (c \<in> set ''0123456789'')"

section \<open>Committing a layer to the layer store\<close>

text \<open>
  Sequencing of computations that can raise: the first exception ends the computation.
\<close>

definition bind :: "error + 'a \<Rightarrow> ('a \<Rightarrow> error + 'b) \<Rightarrow> error + 'b" where
  "bind m f = (case m of Inl e \<Rightarrow> Inl e | Inr x \<Rightarrow> f x)"

text \<open>
  \<^verbatim>\<open>d[k]\<close> raises on a missing key; \<^verbatim>\<open>xs[i]\<close> counts a negative index from the end and
  raises when out of range.
\<close>

definition getitem :: "('k, 'v) dict \<Rightarrow> 'k \<Rightarrow> error + 'v" where
  "getitem d k = (case map_of d k of None \<Rightarrow> Inl KeyError | Some v \<Rightarrow> Inr v)"

definition py_index :: "'a list \<Rightarrow> int \<Rightarrow> error + 'a" where
  "py_index xs i =
     (if 0 \<le> i \<and> i < int (length xs) then Inr (xs ! nat i)
      else if i < 0 \<and> - i \<le> int (length xs) then Inr (xs ! nat (int (length xs) + i))
      else Inl IndexError)"

text \<open>
  The value of a form field of the page: nothing, a text, or the list of names of a
  multiple choice. A layer is the dictionary \<^verbatim>\<open>save_layer\<close> builds; the layer store maps a
  figure slot to its layers by name; \<open>raise_data\<close> is the diagnostics record.
\<close>

datatype pyval = PNone | PStr string | PList "string list"

record layer =
  figure_name :: pyval
  layer_name :: string
  visualisation_type :: pyval
  selected_dataset :: pyval
  x_data :: pyval
  x_axis :: pyval
  y_data :: pyval
  y_axis :: pyval
  mode :: pyval
  map_level :: pyval
  map_data :: pyval
  map_labels :: pyval
  aggregate_method :: pyval
  colormap :: pyval

type_synonym layer_store = "(string, (string, layer) dict) dict"

record raise_data =
  warning :: "string list"
  error :: "string list"

text \<open>
  \<^verbatim>\<open>pagina_interactie_kaart.error_names\<close>, the names of the three figure slots in messages.
\<close>

definition error_names :: "(string, string) dict" where
  "error_names = [(''extra_vis_1'', ''Grafiek 1''), (''extra_vis_2'', ''Grafiek 2''),
                  (''map_vis'', ''Kaart visualisatie'')]"

text \<open>
  The arguments of the callback \<^verbatim>\<open>save_layer\<close>. The form fields arrive as lists (pattern
  matching callbacks), one element per form on the page; \<open>trigger\<close> is the id of the
  component that fired the callback.
\<close>

record save_layer_args =
  trigger :: string
  n_clicks_quit :: "int list"
  n_clicks_delete :: "int list"
  arg_layer_data :: "layer_store option"
  selected_fig :: string
  selected_vis :: pyval
  selected_data :: pyval
  arg_figure_name :: pyval
  arg_layer_name :: "string list"
  arg_x_data :: "pyval list"
  arg_x_axis :: "pyval list"
  arg_y_data :: "pyval list"
  arg_y_axis :: "pyval list"
  arg_mode :: "pyval list"
  arg_map_level :: "pyval list"
  arg_map_data :: "pyval list"
  arg_map_labels :: "pyval list"
  arg_aggregate_method :: "pyval list"
  arg_colormap :: "pyval list"
  add_or_edit :: pyval

text \<open>
  \<^verbatim>\<open>raise_data['error'].append(f'{error_names[selected_fig]}...')\<close> and the same for a
  warning; \<open>when_equal xs index v act\<close> is \<^verbatim>\<open>if xs[index] == v: act\<close>.
\<close>

definition append_error :: "string \<Rightarrow> string \<Rightarrow> raise_data \<Rightarrow> error + raise_data" where
  "append_error fig msg r =
     bind (getitem error_names fig) (\<lambda>n. Inr (r\<lparr>error := error r @ [n @ msg]\<rparr>))"

definition append_warning :: "string \<Rightarrow> string \<Rightarrow> raise_data \<Rightarrow> error + raise_data" where
  "append_warning fig msg r =
     bind (getitem error_names fig) (\<lambda>n. Inr (r\<lparr>warning := warning r @ [n @ msg]\<rparr>))"

definition when_equal ::
  "pyval list \<Rightarrow> int \<Rightarrow> pyval \<Rightarrow> (raise_data \<Rightarrow> error + raise_data) \<Rightarrow> raise_data
   \<Rightarrow> error + raise_data" where
  "when_equal xs index v act r =
     bind (py_index xs index) (\<lambda>x. if x = v then act r else Inr r)"

text \<open>
  The validation of a chart layer (figure slots \<^verbatim>\<open>extra_vis_1\<close> and \<^verbatim>\<open>extra_vis_2\<close>).
\<close>

definition validate_chart :: "save_layer_args \<Rightarrow> int \<Rightarrow> raise_data \<Rightarrow> error + raise_data" where
  "validate_chart a index r =
     (let fig = selected_fig a in
      bind (if selected_vis a \<in> set (map PStr [''scatter'', ''barchart'', ''grouped_barchart'',
                                               ''histogram'', ''grouped_histogram''])
            then
              bind (when_equal (arg_x_data a) index (PStr [])
                      (append_error fig '': Er is geen kolom opgegeven voor de x data.'') r) (\<lambda>r.
              bind (when_equal (arg_x_axis a) index (PStr [])
                      (append_warning fig '': Er is geen titel gegeven voor de x-as'') r) (\<lambda>r.
              if selected_vis a \<notin> set (map PStr [''histogram'', ''grouped_histogram''])
              then
                bind (when_equal (arg_y_data a) index (PStr [])
                        (append_error fig '': Er is geen kolom opgegeven voor de y data.'') r) (\<lambda>r.
                when_equal (arg_y_axis a) index (PStr [])
                        (append_warning fig '': Er is geen titel gegeven voor de y-as'') r)
              else Inr r))
            else Inr r) (\<lambda>r.
      if selected_vis a = PStr ''piechart''
      then
        bind (when_equal (arg_x_data a) index (PStr [])
                (append_error fig '': Er is geen kolom opgegeven voor de labels.'') r) (\<lambda>r.
        when_equal (arg_y_data a) index (PStr [])
                (append_error fig '': Er is geen kolom opgegeven voor de bijbehorende waardes.'') r)
      else Inr r))"

text \<open>
  A field of the layer: \<^verbatim>\<open>xs[index] if xs != [] else None\<close>.
\<close>

definition layer_field :: "pyval list \<Rightarrow> int \<Rightarrow> error + pyval" where
  "layer_field xs index = (if xs \<noteq> [] then py_index xs index else Inr PNone)"

definition make_layer :: "save_layer_args \<Rightarrow> string \<Rightarrow> int \<Rightarrow> error + layer" where
  "make_layer a layer_name_string index =
     bind (layer_field (arg_x_data a) index) (\<lambda>xd.
     bind (layer_field (arg_x_axis a) index) (\<lambda>xa.
     bind (layer_field (arg_y_data a) index) (\<lambda>yd.
     bind (layer_field (arg_y_axis a) index) (\<lambda>ya.
     bind (layer_field (arg_mode a) index) (\<lambda>mo.
     bind (layer_field (arg_map_level a) index) (\<lambda>ml.
     bind (layer_field (arg_map_data a) index) (\<lambda>md.
     bind (layer_field (arg_map_labels a) index) (\<lambda>mb.
     bind (layer_field (arg_aggregate_method a) index) (\<lambda>am.
     bind (layer_field (arg_colormap a) index) (\<lambda>cm.
     Inr \<lparr>figure_name = arg_figure_name a, layer_name = layer_name_string,
          visualisation_type = selected_vis a, selected_dataset = selected_data a,
          x_data = xd, x_axis = xa, y_data = yd, y_axis = ya, mode = mo, map_level = ml,
          map_data = md, map_labels = mb, aggregate_method = am, colormap = cm\<rparr>))))))))))"

text \<open>
  Whether a button exists and was clicked at least once.
\<close>

definition clicked :: "int list \<Rightarrow> int \<Rightarrow> error + bool" where
  "clicked n_clicks index =
     (if n_clicks \<noteq> [] then bind (py_index n_clicks index) (\<lambda>n. Inr (n > 0)) else Inr False)"

definition duplicate_message :: "string \<Rightarrow> string" where
  "duplicate_message layer_name_string =
     '': Laag naam ('' @ layer_name_string @
     '') bestaat al voor dit figuur. Kies een andere naam voor deze visualisatie.''"

text \<open>
  The branch of \<^verbatim>\<open>save_layer\<close> taken when the save button fired. The layer is written
  into the callback's own copy of the store, and that copy is the output only when no
  error was recorded; otherwise the output is \<^verbatim>\<open>no_update\<close>.
\<close>

definition save_branch ::
  "save_layer_args \<Rightarrow> int \<Rightarrow> error + (layer_store dash_output \<times> raise_data)" where
  "save_branch a index =
     (let fig = selected_fig a;
          raise_data = \<lparr>warning = [], error = []\<rparr>;
          layer_data = (case arg_layer_data a of None \<Rightarrow> [] | Some d \<Rightarrow> d);
          layer_data = (if fig \<notin> set (keys layer_data) then AList.update fig [] layer_data
                        else layer_data)
      in
      bind (py_index (arg_layer_name a) index) (\<lambda>given.
      bind (if given \<noteq> [] then Inr (given, raise_data)
            else bind (append_warning fig
                         ('': De zojuist toegevoegde laag heeft geen naam gekregen. Deze visualisatie ''
                          @ ''krijgt de naam (Laag zonder naam)'') raise_data)
                   (\<lambda>r. Inr (''Laag zonder naam'', r))) (\<lambda>(layer_name_string, r).
      bind (if fig \<in> set [''extra_vis_1'', ''extra_vis_2''] then validate_chart a index r
            else when_equal (arg_map_labels a) index PNone
                   (append_error fig '': Er is geen regio code (GM/WK/BU) meegegeven.'') r) (\<lambda>r.
      bind (getitem layer_data fig) (\<lambda>layers.
      bind (if layer_name_string \<in> set (keys layers) \<and> add_or_edit a \<noteq> PStr layer_name_string
            then append_error fig (duplicate_message layer_name_string) r
            else Inr r) (\<lambda>r.
      bind (make_layer a layer_name_string index) (\<lambda>layer.
      let layer_data = AList.update fig (AList.update layer_name_string layer layers) layer_data
      in if length (error r) > 0 then Inr (no_update, r)
         else Inr (Update layer_data, r))))))))"

text \<open>
  The branch taken when the delete button fired.
\<close>

definition delete_branch ::
  "save_layer_args \<Rightarrow> int \<Rightarrow> error + (layer_store dash_output \<times> raise_data)" where
  "delete_branch a index =
     (case arg_layer_data a of
        None \<Rightarrow> Inl TypeError
      | Some layer_data \<Rightarrow>
          bind (getitem layer_data (selected_fig a)) (\<lambda>layers.
          bind (py_index (arg_layer_name a) index) (\<lambda>name.
          bind (pop name layers) (\<lambda>layers.
          Inr (Update (AList.update (selected_fig a) layers layer_data),
               \<lparr>warning = [], error = []\<rparr>)))))"

text \<open>
  \<^verbatim>\<open>save_layer\<close>. The index into the form lists is 0 when there is one form and -1 (the
  last one) otherwise. The callback returns the store output and the diagnostics, or a
  single \<^verbatim>\<open>no_update\<close> (\<open>None\<close>) when neither button fired.
\<close>

definition layer_index :: "save_layer_args \<Rightarrow> int" where
  "layer_index a = (if length (arg_layer_name a) = 1 then 0 else - 1)"

definition save_layer ::
  "save_layer_args \<Rightarrow> error + (layer_store dash_output \<times> raise_data) option" where
  "save_layer a =
     (let index = layer_index a in
      bind (clicked (n_clicks_quit a) index) (\<lambda>save_clicked.
      bind (clicked (n_clicks_delete a) index) (\<lambda>delete_clicked.
      if sublist ''button-quit'' (trigger a) \<and> save_clicked
      then bind (save_branch a index) (\<lambda>out. Inr (Some out))
      else if sublist ''button-delete'' (trigger a) \<and> delete_clicked
      then bind (delete_branch a index) (\<lambda>out. Inr (Some out))
      else Inr None)))"

text \<open>
  A store holding the scatter layer \<^verbatim>\<open>temp\<close> in the first chart slot, and a commit of a
  second layer of that name with no y column.
\<close>

definition ex_layer :: layer where
  "ex_layer = \<lparr>figure_name = PStr ''t'', layer_name = ''temp'', visualisation_type = PStr ''scatter'',
     selected_dataset = PStr ''ds'', x_data = PStr ''x'', x_axis = PStr ''xa'', y_data = PStr ''y'',
     y_axis = PStr ''ya'', mode = PNone, map_level = PNone, map_data = PNone, map_labels = PNone,
     aggregate_method = PNone, colormap = PNone\<rparr>"

definition ex_args :: save_layer_args where
  "ex_args = \<lparr>trigger = ''{\"index\":\"scatter\",\"type\":\"button-quit\"}'', n_clicks_quit = [1], n_clicks_delete = [],
     arg_layer_data = Some [(''extra_vis_1'', [(''temp'', ex_layer)])],
     selected_fig = ''extra_vis_1'', selected_vis = PStr ''scatter'', selected_data = PStr ''ds'',
     arg_figure_name = PStr ''t'', arg_layer_name = [''temp''], arg_x_data = [PStr ''x''],
     arg_x_axis = [PStr []], arg_y_data = [PStr []], arg_y_axis = [PStr ''ya''], arg_mode = [],
     arg_map_level = [], arg_map_data = [], arg_map_labels = [], arg_aggregate_method = [],
     arg_colormap = [], add_or_edit = PNone\<rparr>"

text \<open>
  The form fields that the validation of the chosen kind of layer reads are on the page.
\<close>

definition validation_fields_present :: "save_layer_args \<Rightarrow> bool" where
  "validation_fields_present a =
     (if selected_fig a \<in> set [''extra_vis_1'', ''extra_vis_2'']
      then (selected_vis a \<in> set (map PStr [''scatter'', ''barchart'', ''grouped_barchart'',
                                              ''histogram'', ''grouped_histogram''])
              \<longrightarrow> arg_x_data a \<noteq> [] \<and> arg_x_axis a \<noteq> []
                  \<and> (selected_vis a \<notin> set (map PStr [''histogram'', ''grouped_histogram''])
                       \<longrightarrow> arg_y_data a \<noteq> [] \<and> arg_y_axis a \<noteq> []))
           \<and> (selected_vis a = PStr ''piechart'' \<longrightarrow> arg_x_data a \<noteq> [] \<and> arg_y_data a \<noteq> [])
      else arg_map_labels a \<noteq> [])"

text \<open>
  The error messages of the field validation, without the figure's name.
\<close>

definition validation_messages :: "string set" where
  "validation_messages =
     {'': Er is geen kolom opgegeven voor de x data.'',
      '': Er is geen kolom opgegeven voor de y data.'',
      '': Er is geen kolom opgegeven voor de labels.'',
      '': Er is geen kolom opgegeven voor de bijbehorende waardes.'',
      '': Er is geen regio code (GM/WK/BU) meegegeven.''}"

text \<open>
  A validation step returns, and adds only validation messages to the errors.
\<close>

definition only_adds :: "string \<Rightarrow> raise_data \<Rightarrow> error + raise_data \<Rightarrow> bool" where
  "only_adds n r res =
     (\<exists>r'. res = Inr r' \<and> set (error r') \<subseteq> set (error r) \<union> (\<lambda>m. n @ m) ` validation_messages)"

section \<open>Tables and the spatial join\<close>

text \<open>
  A cell of a table is a number, a text, a geometry or missing (\<^verbatim>\<open>None\<close>, \<^verbatim>\<open>NaN\<close>). Numbers
  are of a type \<open>'n\<close> and geometries of a type \<open>'g\<close>; the geometric predicates and
  constructors of the libraries are parameters of the functions that use them. A row is a
  dictionary from column names to cells. A table has its column names, the type of each
  column, its index (one label per row, an integer or a text) and its rows in order. A
  numeric column holds numbers and missing values, a geometry column geometries and
  missing values, and a column of type \<^verbatim>\<open>object\<close> holds any cells. In a table of the data
  library the column names are distinct, every column has its type, every row has
  exactly the columns of the table with cells of their types, and there are as many
  labels as rows (\<open>wf_frame\<close>). The default index numbers the rows from 0.
\<close>

datatype ('n, 'g) cell = Num 'n | Str string | Geom 'g | Null

type_synonym ('n, 'g) row = "(string, ('n, 'g) cell) dict"

datatype label = IntLabel int | StrLabel string

datatype dtype = Numeric | Object | Geometry

fun conforms :: "dtype \<Rightarrow> ('n, 'g) cell \<Rightarrow> bool" where
  "conforms Object v = True"
| "conforms Numeric v = (case v of Num _ \<Rightarrow> True | Null \<Rightarrow> True | _ \<Rightarrow> False)"
| "conforms Geometry v = (case v of Geom _ \<Rightarrow> True | Null \<Rightarrow> True | _ \<Rightarrow> False)"

record ('n, 'g) frame =
  columns :: "string list"
  dtypes :: "(string, dtype) dict"
  index :: "label list"
  rows :: "('n, 'g) row list"

definition cell_of :: "('n, 'g) row \<Rightarrow> string \<Rightarrow> ('n, 'g) cell" where
  "cell_of row c = (case map_of row c of None \<Rightarrow> Null | Some v \<Rightarrow> v)"

definition wf_frame :: "('n, 'g) frame \<Rightarrow> bool" where
  "wf_frame t =
     (distinct (columns t) \<and> keys (dtypes t) = columns t
      \<and> length (index t) = length (rows t)
      \<and> list_all (\<lambda>row. keys row = columns t
                       \<and> list_all (\<lambda>(c, d). conforms d (cell_of row c)) (dtypes t)) (rows t))"

definition default_index :: "nat \<Rightarrow> label list" where
  "default_index n = map (\<lambda>i. IntLabel (int i)) [0 ..< n]"

text \<open>
  \<^verbatim>\<open>t[c] = values\<close> with an array of one value per row, of type \<open>d\<close>: the values go to
  the rows by position; a new column is the last one.
\<close>

definition set_column ::
  "string \<Rightarrow> dtype \<Rightarrow> ('n, 'g) cell list \<Rightarrow> ('n, 'g) frame \<Rightarrow> ('n, 'g) frame" where
  "set_column c d vs t =
     t\<lparr>columns := (if c \<in> set (columns t) then columns t else columns t @ [c]),
       dtypes := AList.update c d (dtypes t),
       rows := map (\<lambda>(row, v). AList.update c v row) (zip (rows t) vs)\<rparr>"

text \<open>
  \<^verbatim>\<open>t[c] = series\<close> with a column of another table that carries the default index: the
  values go to the rows by label. A row whose label is the number of a position of the
  series gets the value there, every other row gets a missing value. The series here are
  of texts, and the column is of type \<^verbatim>\<open>object\<close>.
\<close>

definition reindex :: "('n, 'g) cell list \<Rightarrow> label list \<Rightarrow> ('n, 'g) cell list" where
  "reindex vs labels =
     map (\<lambda>l. case l of
                 IntLabel i \<Rightarrow> if 0 \<le> i \<and> i < int (length vs) then vs ! nat i else Null
               | StrLabel _ \<Rightarrow> Null) labels"

definition set_column_from ::
  "string \<Rightarrow> ('n, 'g) cell list \<Rightarrow> ('n, 'g) frame \<Rightarrow> ('n, 'g) frame" where
  "set_column_from c series t = set_column c Object (reindex series (index t)) t"

text \<open>Applying a function that can raise to every element, in order.\<close>

fun map_raise :: "('a \<Rightarrow> error + 'b) \<Rightarrow> 'a list \<Rightarrow> error + 'b list" where
  "map_raise f [] = Inr []"
| "map_raise f (x # xs) = bind (f x) (\<lambda>y. bind (map_raise f xs) (\<lambda>ys. Inr (y # ys)))"

text \<open>
  \<^verbatim>\<open>t.apply(f, axis=1)\<close> calls \<open>f\<close> on every row and returns the series of the results. On
  a table without rows or without columns it does not call \<open>f\<close> and returns the table
  itself. \<^verbatim>\<open>to_list\<close> is a method of a series only.
\<close>

datatype ('a, 't) applied = Series "'a list" | Table 't

definition apply_rows ::
  "(('n, 'g) row \<Rightarrow> error + 'a) \<Rightarrow> ('n, 'g) frame \<Rightarrow> error + ('a, ('n, 'g) frame) applied" where
  "apply_rows f t =
     (if rows t = [] \<or> columns t = [] then Inr (Table t)
      else bind (map_raise f (rows t)) (\<lambda>ys. Inr (Series ys)))"

definition to_list :: "('a, 't) applied \<Rightarrow> error + 'a list" where
  "to_list a = (case a of Series ys \<Rightarrow> Inr ys | Table _ \<Rightarrow> Inl AttributeError)"

text \<open>
  \<^verbatim>\<open>data_utils._get_code\<close>, the name of the code column of a level, and the name of the
  name column, \<^verbatim>\<open>code[:-5] + "_NAAM"\<close>.
\<close>

definition get_code :: "string \<Rightarrow> string option" where
  "get_code level =
     (if level = ''Buurt'' then Some ''BU_CODE''
      else if level = ''Wijk'' then Some ''WK_CODE''
      else if level = ''Gemeente'' then Some ''GM_CODE''
      else None)"

definition naam_column :: "string \<Rightarrow> string" where
  "naam_column code = take (length code - 5) code @ ''_NAAM''"

text \<open>
  The shapes of a level, as \<^verbatim>\<open>load_location_data\<close> returns them for that level: one row
  per region with its code, its name and its polygon.
\<close>

record 'g shape =
  shape_code :: string
  shape_name :: string
  shape_geometry :: 'g

text \<open>
  \<^verbatim>\<open>data_utils._add_level_column\<close>. \<open>contains\<close> is the containment test of the geometry
  library (a polygon contains a point that lies in its interior); asked for anything
  that is not a geometry, a missing value too, it raises \<^verbatim>\<open>TypeError\<close>. With no code
  column the slice \<^verbatim>\<open>code[:-5]\<close> raises. The result is the pair of code and name of the
  first shape, in the order of the shapes, that contains the point of the row, or the
  sentinel pair.
\<close>

definition add_level_column ::
  "('g \<Rightarrow> 'g \<Rightarrow> bool) \<Rightarrow> ('n, 'g) row \<Rightarrow> 'g shape list \<Rightarrow> string option
   \<Rightarrow> error + (('n, 'g) cell \<times> ('n, 'g) cell)" where
  "add_level_column contains row shapes code =
     bind (getitem row ''geometry'') (\<lambda>punt.
     bind (case punt of
             Geom p \<Rightarrow> Inr (filter (\<lambda>s. contains (shape_geometry s) p) shapes)
           | _ \<Rightarrow> Inl TypeError) (\<lambda>selectie.
     case code of
       None \<Rightarrow> Inl TypeError
     | Some _ \<Rightarrow>
         (case selectie of
            [] \<Rightarrow> Inr (Str ''onbekend'', Str ''onbekend'')
          | s # _ \<Rightarrow> Inr (Str (shape_code s), Str (shape_name s)))))"

text \<open>
  The table given is a plain \<^verbatim>\<open>DataFrame\<close> or a \<^verbatim>\<open>GeoDataFrame\<close>. A plain one is given its
  geometry column first, from the longitude and latitude columns; \<open>points_from_xy\<close> is
  the constructor of the geometry library, applied to the two cells of a row.
\<close>

datatype ('n, 'g) table = DataFrame "('n, 'g) frame" | GeoDataFrame "('n, 'g) frame"

definition to_geo ::
  "(('n, 'g) cell \<Rightarrow> ('n, 'g) cell \<Rightarrow> error + 'g) \<Rightarrow> ('n, 'g) table \<Rightarrow> string \<Rightarrow> string
   \<Rightarrow> error + ('n, 'g) frame" where
  "to_geo points_from_xy df lat_name lon_name =
     (case df of
        GeoDataFrame t \<Rightarrow> Inr t
      | DataFrame t \<Rightarrow>
          if lon_name \<notin> set (columns t) then Inl KeyError
          else if lat_name \<notin> set (columns t) then Inl KeyError
          else
            bind (map_raise (\<lambda>row. points_from_xy (cell_of row lon_name) (cell_of row lat_name))
                    (rows t)) (\<lambda>points.
            Inr (set_column ''geometry'' Geometry (map Geom points) t)))"

text \<open>
  \<^verbatim>\<open>data_utils.aggregate_point_data\<close>. An unknown level has no code column
  (\<^verbatim>\<open>_get_code\<close> returns \<^verbatim>\<open>None\<close>) and the slice of \<^verbatim>\<open>None\<close> raises. The pairs found for
  the rows make a table of their own, with the default index, and its two columns are
  assigned to the two columns of the level.
\<close>

definition aggregate_point_data ::
  "('g \<Rightarrow> 'g \<Rightarrow> bool) \<Rightarrow> (('n, 'g) cell \<Rightarrow> ('n, 'g) cell \<Rightarrow> error + 'g) \<Rightarrow> ('n, 'g) table
   \<Rightarrow> 'g shape list \<Rightarrow> string \<Rightarrow> string \<Rightarrow> string \<Rightarrow> error + ('n, 'g) frame" where
  "aggregate_point_data contains points_from_xy df shapes level lat_name lon_name =
     (let code = get_code level in
      bind (to_geo points_from_xy df lat_name lon_name) (\<lambda>geo_df.
      bind (apply_rows (\<lambda>x. add_level_column contains x shapes code) geo_df) (\<lambda>code_column.
      case code of
        None \<Rightarrow> Inl TypeError
      | Some code \<Rightarrow>
          let name = naam_column code in
          bind (to_list code_column) (\<lambda>temp_df.
          let geo_df = set_column_from code (map fst temp_df) geo_df;
              geo_df = set_column_from name (map snd temp_df) geo_df
          in Inr geo_df))))"

text \<open>
  A concrete geometry to run the model on: points of the integer grid and axis-parallel
  rectangles given by two corners; a rectangle contains the points strictly inside it.
\<close>

datatype grid_geometry = Point int int | Box int int int int

fun grid_contains :: "grid_geometry \<Rightarrow> grid_geometry \<Rightarrow> bool" where
  "grid_contains (Box x0 y0 x1 y1) (Point x y) = (x0 < x \<and> x < x1 \<and> y0 < y \<and> y < y1)"
| "grid_contains _ _ = False"

fun grid_points_from_xy ::
  "(int, grid_geometry) cell \<Rightarrow> (int, grid_geometry) cell \<Rightarrow> error + grid_geometry" where
  "grid_points_from_xy (Num x) (Num y) = Inr (Point x y)"
| "grid_points_from_xy _ _ = Inl TypeError"

definition ex_shapes :: "grid_geometry shape list" where
  "ex_shapes =
     [\<lparr>shape_code = ''BU08551001'', shape_name = ''Binnenstad West'', shape_geometry = Box 0 0 10 10\<rparr>,
      \<lparr>shape_code = ''BU08551002'', shape_name = ''Binnenstad Oost'', shape_geometry = Box 10 0 20 10\<rparr>]"

definition ex_points :: "(int, grid_geometry) frame" where
  "ex_points =
     \<lparr>columns = [''id'', ''geometry''],
      dtypes = [(''id'', Numeric), (''geometry'', Geometry)],
      index = [IntLabel 0, IntLabel 1],
      rows = [[(''id'', Num 1), (''geometry'', Geom (Point 12 5))],
              [(''id'', Num 2), (''geometry'', Geom (Point 30 30))]]\<rparr>"

definition ex_latlong :: "(int, grid_geometry) frame" where
  "ex_latlong =
     \<lparr>columns = [''longitude'', ''latitude''],
      dtypes = [(''longitude'', Numeric), (''latitude'', Numeric)],
      index = [IntLabel 0],
      rows = [[(''longitude'', Num 12), (''latitude'', Num 5)]]\<rparr>"

text \<open>
  The table a call is about, and the point of one of its rows: the geometry of the row
  in a \<^verbatim>\<open>GeoDataFrame\<close>, the point made of its longitude and latitude in a plain table.
\<close>

definition frame_of :: "('n, 'g) table \<Rightarrow> ('n, 'g) frame" where
  "frame_of df = (case df of DataFrame t \<Rightarrow> t | GeoDataFrame t \<Rightarrow> t)"

definition point_of ::
  "(('n, 'g) cell \<Rightarrow> ('n, 'g) cell \<Rightarrow> error + 'g) \<Rightarrow> ('n, 'g) table \<Rightarrow> string \<Rightarrow> string
   \<Rightarrow> ('n, 'g) row \<Rightarrow> 'g option" where
  "point_of points_from_xy df lat_name lon_name row =
     (case df of
        GeoDataFrame _ \<Rightarrow> (case cell_of row ''geometry'' of Geom p \<Rightarrow> Some p | _ \<Rightarrow> None)
      | DataFrame _ \<Rightarrow>
          (case points_from_xy (cell_of row lon_name) (cell_of row lat_name) of
             Inr p \<Rightarrow> Some p
           | Inl _ \<Rightarrow> None))"

text \<open>
  Three tables on which the join does not do what it does on the others: a table without
  rows, a table whose index is not the default one, and a table with a missing geometry.
\<close>

definition ex_empty :: "(int, grid_geometry) frame" where
  "ex_empty =
     \<lparr>columns = [''id'', ''geometry''],
      dtypes = [(''id'', Numeric), (''geometry'', Geometry)],
      index = [], rows = []\<rparr>"

definition ex_relabelled :: "(int, grid_geometry) frame" where
  "ex_relabelled = ex_points\<lparr>index := [IntLabel 1, IntLabel 7]\<rparr>"

definition ex_missing :: "(int, grid_geometry) frame" where
  "ex_missing =
     \<lparr>columns = [''id'', ''geometry''],
      dtypes = [(''id'', Numeric), (''geometry'', Geometry)],
      index = [IntLabel 0],
      rows = [[(''id'', Num 1), (''geometry'', Null)]]\<rparr>"

section \<open>Grouping and reducing a table\<close>

text \<open>
  Grouping a table, as the data library does it (\<^verbatim>\<open>DataFrame.groupby\<close>), in the version
  of the library the dashboard was written for, where a reduction leaves out the columns
  it does not apply to. Numbers are taken from an ordered field; the rounding of floating
  point numbers is not modelled.

  The group keys are one column name or a list of them; a list without names raises.
\<close>

definition by_columns :: "pyval \<Rightarrow> error + string list" where
  "by_columns groupby_value =
     (case groupby_value of
        PStr c \<Rightarrow> Inr [c]
      | PList cs \<Rightarrow> if cs = [] then Inl ValueError else Inr cs
      | PNone \<Rightarrow> Inl TypeError)"

text \<open>
  The order in which groups are listed: the library sorts them by key. Numbers are
  ordered by value and texts lexicographically.
\<close>

fun rank :: "('n::{linorder,zero}, 'g) cell \<Rightarrow> nat \<times> 'n \<times> string" where
  "rank (Num x) = (0, x, [])"
| "rank (Str s) = (1, 0, s)"
| "rank (Geom g) = (2, 0, [])"
| "rank Null = (3, 0, [])"

text \<open>
  \<^verbatim>\<open>t.groupby(by)\<close>: a key column the table lacks raises. The key of a row is the list of
  its cells in the key columns. Rows with a missing cell in the key belong to no group.
  The result lists each key, in ascending order, with the rows of its group in the order
  of the table.
\<close>

definition group_key :: "string list \<Rightarrow> ('n, 'g) row \<Rightarrow> ('n, 'g) cell list" where
  "group_key by row = map (cell_of row) by"

definition groupby ::
  "('n::{linorder,zero}, 'g) frame \<Rightarrow> string list
   \<Rightarrow> error + (('n, 'g) cell list \<times> ('n, 'g) row list) list" where
  "groupby t by =
     (if \<not> list_all (\<lambda>c. c \<in> set (columns t)) by then Inl KeyError
      else
        let keyed = filter (\<lambda>(k, row). Null \<notin> set k) (map (\<lambda>row. (group_key by row, row)) (rows t));
            ks = sort_key (map rank) (remdups (map fst keyed))
        in Inr (map (\<lambda>k. (k, map snd (filter (\<lambda>(k', row). k' = k) keyed))) ks))"

text \<open>
  The reductions of one column of one group. \<^verbatim>\<open>count\<close> is the number of cells that are
  not missing. The others skip missing cells.
\<close>

definition numbers :: "('n, 'g) cell list \<Rightarrow> 'n list" where
  "numbers cs = concat (map (\<lambda>c. case c of Num x \<Rightarrow> [x] | _ \<Rightarrow> []) cs)"

definition count_cells :: "('n::semiring_1, 'g) cell list \<Rightarrow> ('n, 'g) cell" where
  "count_cells cs = Num (of_nat (length (filter (\<lambda>c. c \<noteq> Null) cs)))"

definition mean_cells :: "('n::field, 'g) cell list \<Rightarrow> ('n, 'g) cell" where
  "mean_cells cs =
     (case numbers cs of [] \<Rightarrow> Null | x # xs \<Rightarrow> Num (sum_list (x # xs) / of_nat (length (x # xs))))"

definition sum_cells :: "('n::field, 'g) cell list \<Rightarrow> ('n, 'g) cell" where
  "sum_cells cs = Num (sum_list (numbers cs))"

definition max_cells :: "('n::{linorder,zero}, 'g) cell list \<Rightarrow> ('n, 'g) cell" where
  "max_cells cs =
     (case filter (\<lambda>c. c \<noteq> Null) cs of
        [] \<Rightarrow> Null
      | c # cs' \<Rightarrow> fold (\<lambda>x m. if rank m < rank x then x else m) cs' c)"

definition min_cells :: "('n::{linorder,zero}, 'g) cell list \<Rightarrow> ('n, 'g) cell" where
  "min_cells cs =
     (case filter (\<lambda>c. c \<noteq> Null) cs of
        [] \<Rightarrow> Null
      | c # cs' \<Rightarrow> fold (\<lambda>x m. if rank x < rank m then x else m) cs' c)"

text \<open>
  Which columns a reduction keeps, by the type of the column. \<^verbatim>\<open>count\<close> keeps every
  column; \<^verbatim>\<open>mean\<close> and \<^verbatim>\<open>sum\<close> keep the numeric columns; \<^verbatim>\<open>max\<close> and \<^verbatim>\<open>min\<close> keep the numeric
  columns and the columns of type \<^verbatim>\<open>object\<close> whose cells are all texts (of an
  \<^verbatim>\<open>object\<close> column with other cells the result of the library depends on the cells;
  such a column is left out here). The other columns are left out of the result.
\<close>

definition dtype_of :: "('n, 'g) frame \<Rightarrow> string \<Rightarrow> dtype" where
  "dtype_of t c = (case map_of (dtypes t) c of None \<Rightarrow> Object | Some d \<Rightarrow> d)"

definition text_column :: "('n, 'g) frame \<Rightarrow> string \<Rightarrow> bool" where
  "text_column t c =
     (dtype_of t c = Object
      \<and> list_all (\<lambda>row. case cell_of row c of Str _ \<Rightarrow> True | _ \<Rightarrow> False) (rows t))"

datatype reduction = Count | Mean | Sum | Max | Min

fun keeps :: "reduction \<Rightarrow> ('n, 'g) frame \<Rightarrow> string \<Rightarrow> bool" where
  "keeps Count t c = True"
| "keeps Mean t c = (dtype_of t c = Numeric)"
| "keeps Sum t c = (dtype_of t c = Numeric)"
| "keeps Max t c = (dtype_of t c = Numeric \<or> text_column t c)"
| "keeps Min t c = (dtype_of t c = Numeric \<or> text_column t c)"

fun reduce :: "reduction \<Rightarrow> ('n::linordered_field, 'g) cell list \<Rightarrow> ('n, 'g) cell" where
  "reduce Count = count_cells"
| "reduce Mean = mean_cells"
| "reduce Sum = sum_cells"
| "reduce Max = max_cells"
| "reduce Min = min_cells"

fun reduced_dtype :: "reduction \<Rightarrow> dtype \<Rightarrow> dtype" where
  "reduced_dtype Max d = d"
| "reduced_dtype Min d = d"
| "reduced_dtype _ d = Numeric"

text \<open>
  \<^verbatim>\<open>t.groupby(by).count().reset_index()\<close> and its like, and the same with
  \<^verbatim>\<open>as_index=False\<close>: one row per group, with the key columns first and then every other
  column the reduction keeps, reduced over the rows of the group. The result carries the
  default index. A key column named twice cannot be put back as a column.
\<close>

definition groupby_reduce ::
  "reduction \<Rightarrow> ('n::linordered_field, 'g) frame \<Rightarrow> string list \<Rightarrow> error + ('n, 'g) frame" where
  "groupby_reduce red t by =
     bind (groupby t by) (\<lambda>groups.
     if \<not> distinct by then Inl ValueError
     else
       let others = filter (\<lambda>c. c \<notin> set by \<and> keeps red t c) (columns t)
       in Inr \<lparr>columns = by @ others,
               dtypes = map (\<lambda>c. (c, dtype_of t c)) by
                          @ map (\<lambda>c. (c, reduced_dtype red (dtype_of t c))) others,
               index = default_index (length groups),
               rows = map (\<lambda>(k, group).
                            zip by k
                            @ map (\<lambda>c. (c, reduce red (map (\<lambda>row. cell_of row c) group))) others)
                        groups\<rparr>)"

text \<open>
  \<^verbatim>\<open>t[c] = t[c].astype(float)\<close>: no column name or a column the table lacks raises
  \<^verbatim>\<open>KeyError\<close>; a number stays, a missing cell stays missing, a text is read as a number
  by \<open>parse_float\<close> (Python's \<^verbatim>\<open>float\<close>) or raises \<^verbatim>\<open>ValueError\<close>, a geometry raises
  \<^verbatim>\<open>TypeError\<close>. The column becomes numeric.
\<close>

definition to_float :: "(string \<Rightarrow> 'n option) \<Rightarrow> ('n, 'g) cell \<Rightarrow> error + ('n, 'g) cell" where
  "to_float parse_float v =
     (case v of
        Num x \<Rightarrow> Inr (Num x)
      | Null \<Rightarrow> Inr Null
      | Str s \<Rightarrow> (case parse_float s of None \<Rightarrow> Inl ValueError | Some x \<Rightarrow> Inr (Num x))
      | Geom g \<Rightarrow> Inl TypeError)"

definition astype_float ::
  "(string \<Rightarrow> 'n option) \<Rightarrow> ('n, 'g) frame \<Rightarrow> string option \<Rightarrow> error + ('n, 'g) frame" where
  "astype_float parse_float t group_to =
     (case group_to of
        None \<Rightarrow> Inl KeyError
      | Some c \<Rightarrow>
          if c \<notin> set (columns t) then Inl KeyError
          else
            bind (map_raise (\<lambda>row. to_float parse_float (cell_of row c)) (rows t)) (\<lambda>vs.
            Inr (set_column c Numeric vs t)))"

text \<open>
  \<^verbatim>\<open>_group_values\<close>, defined alike in \<^verbatim>\<open>pagina_interactie_kaart\<close> and
  \<^verbatim>\<open>pagina_visualisatie_kaart\<close>. The reducer and the target column are values of a
  dropdown, a text or \<^verbatim>\<open>None\<close>. The four numeric reducers cast the target column first;
  \<^verbatim>\<open>frequency\<close> counts; any other reducer takes the mean without the cast.
\<close>

definition group_values ::
  "(string \<Rightarrow> 'n option) \<Rightarrow> ('n::linordered_field, 'g) frame \<Rightarrow> pyval \<Rightarrow> string option
   \<Rightarrow> string option \<Rightarrow> error + ('n, 'g) frame" where
  "group_values parse_float gdf groupby_value group_method group_to =
     (if group_method = Some ''mean'' then
        bind (astype_float parse_float gdf group_to) (\<lambda>gdf.
        bind (by_columns groupby_value) (groupby_reduce Mean gdf))
      else if group_method = Some ''max'' then
        bind (astype_float parse_float gdf group_to) (\<lambda>gdf.
        bind (by_columns groupby_value) (groupby_reduce Max gdf))
      else if group_method = Some ''min'' then
        bind (astype_float parse_float gdf group_to) (\<lambda>gdf.
        bind (by_columns groupby_value) (groupby_reduce Min gdf))
      else if group_method = Some ''sum'' then
        bind (astype_float parse_float gdf group_to) (\<lambda>gdf.
        bind (by_columns groupby_value) (groupby_reduce Sum gdf))
      else if group_method = Some ''frequency'' then
        bind (by_columns groupby_value) (groupby_reduce Count gdf)
      else
        bind (by_columns groupby_value) (groupby_reduce Mean gdf))"

text \<open>
  Reading a text of decimal digits as a number, to run the model on concrete tables.
\<close>

definition digit_value :: "char \<Rightarrow> nat option" where
  "digit_value c = map_of (zip ''0123456789'' [0 ..< 10]) c"

definition digits_float :: "string \<Rightarrow> rat option" where
  "digits_float s =
     (if s = [] \<or> list_ex (\<lambda>c. digit_value c = None) s then None
      else Some (of_nat (foldl (\<lambda>n c. 10 * n + the (digit_value c)) 0 s)))"

definition ex_trees :: "(rat, unit) frame" where
  "ex_trees =
     \<lparr>columns = [''WK_CODE'', ''soort'', ''hoogte'', ''jaar''],
      dtypes = [(''WK_CODE'', Object), (''soort'', Object), (''hoogte'', Numeric),
                (''jaar'', Numeric)],
      index = [IntLabel 0, IntLabel 1, IntLabel 2, IntLabel 3],
      rows =
        [[(''WK_CODE'', Str ''WK085511''), (''soort'', Str ''eik''), (''hoogte'', Num 12),
          (''jaar'', Num 1990)],
         [(''WK_CODE'', Str ''WK085510''), (''soort'', Str ''beuk''), (''hoogte'', Null),
          (''jaar'', Num 2000)],
         [(''WK_CODE'', Str ''WK085510''), (''soort'', Str ''eik''), (''hoogte'', Num 8),
          (''jaar'', Num 2010)],
         [(''WK_CODE'', Null), (''soort'', Str ''eik''), (''hoogte'', Num 8),
          (''jaar'', Num 2020)]]\<rparr>"

section \<open>Drawing the layers of the map\<close>

text \<open>
  Texts of Python. \<open>py_repr\<close> is \<^verbatim>\<open>repr\<close> of a text of printable characters without a
  backslash: in single quotes, or in double quotes when it holds a single quote and no
  double quote. \<open>py_str\<close> is what an f-string prints for the value of a form field, and
  \<open>str_nat\<close> what it prints for a natural number. \<open>py_strip\<close> and \<open>py_split\<close> are the methods \<^verbatim>\<open>strip\<close> and
  \<^verbatim>\<open>split\<close> of \<^verbatim>\<open>str\<close>. The letter e with diaeresis of the messages is written as its two bytes.
\<close>

definition py_repr :: "string \<Rightarrow> string" where
  "py_repr s =
     (if CHR 0x27 \<in> set s \<and> CHR 0x22 \<notin> set s then [CHR 0x22] @ s @ [CHR 0x22]
      else [CHR 0x27] @ concat (map (\<lambda>c. if c = CHR 0x27 then [CHR 0x5C, c] else [c]) s)
             @ [CHR 0x27])"

fun py_join :: "string \<Rightarrow> string list \<Rightarrow> string" where
  "py_join sep [] = []"
| "py_join sep [x] = x"
| "py_join sep (x # y # ys) = x @ sep @ py_join sep (y # ys)"

definition py_repr_list :: "string list \<Rightarrow> string" where
  "py_repr_list xs = ''['' @ py_join '', '' (map py_repr xs) @ '']''"

definition py_str :: "pyval \<Rightarrow> string" where
  "py_str v = (case v of PNone \<Rightarrow> ''None'' | PStr s \<Rightarrow> s | PList xs \<Rightarrow> py_repr_list xs)"

fun str_nat :: "nat \<Rightarrow> string" where
  "str_nat n =
     (if n < 10 then [''0123456789'' ! n] else str_nat (n div 10) @ [''0123456789'' ! (n mod 10)])"

definition py_strip :: "string \<Rightarrow> string \<Rightarrow> string" where
  "py_strip chars s =
     rev (dropWhile (\<lambda>c. c \<in> set chars) (rev (dropWhile (\<lambda>c. c \<in> set chars) s)))"

fun split_from :: "string \<Rightarrow> nat \<Rightarrow> string \<Rightarrow> string \<Rightarrow> string list" where
  "split_from sep skip acc [] = [rev acc]"
| "split_from sep skip acc (c # cs) =
     (if skip > 0 then split_from sep (skip - 1) acc cs
      else if sep \<noteq> [] \<and> prefix sep (c # cs) then rev acc # split_from sep (length sep - 1) [] cs
      else split_from sep 0 (c # acc) cs)"

definition py_split :: "string \<Rightarrow> string \<Rightarrow> string list" where
  "py_split sep s = split_from sep 0 [] s"

definition e_diaeresis :: string where
  "e_diaeresis = [CHR 0xC3, CHR 0xAB]"

text \<open>
  \<^verbatim>\<open>get_unique_types\<close> and \<^verbatim>\<open>type_error_numeric\<close>. \<open>py_type\<close> gives \<^verbatim>\<open>str(type(elem))\<close> of
  a cell; it is a parameter, since a cell does not tell an integer from a float nor
  \<^verbatim>\<open>None\<close> from \<^verbatim>\<open>NaN\<close>.
\<close>

definition typedict :: "(string, string) dict" where
  "typedict =
     [([CHR 0x3C] @ ''class '' @ [CHR 0x27] @ ''int'' @ [CHR 0x27, CHR 0x3E], ''getal''),
      ([CHR 0x3C] @ ''class '' @ [CHR 0x27] @ ''float'' @ [CHR 0x27, CHR 0x3E], ''getal''),
      ([CHR 0x3C] @ ''class '' @ [CHR 0x27] @ ''str'' @ [CHR 0x27, CHR 0x3E], ''tekst/categorisch'')]"

definition typestr :: "string \<Rightarrow> string" where
  "typestr string_type =
     (case map_of typedict string_type of
        Some t \<Rightarrow> t
      | None \<Rightarrow>
          if sublist ''class'' string_type
          then py_strip [CHR 0x27] (py_strip [CHR 0x3E] (py_strip [CHR 0x3C] (py_strip ''class'' string_type)))
          else ''onbekend'')"

definition get_unique_types :: "('a \<Rightarrow> string) \<Rightarrow> 'a list \<Rightarrow> string list" where
  "get_unique_types py_type data_list =
     foldl (\<lambda>typelist elem.
              let t = typestr (py_type elem)
              in if t \<in> set typelist then typelist else typelist @ [t]) [] data_list"

definition type_error_numeric ::
  "string \<Rightarrow> string \<Rightarrow> string \<Rightarrow> string \<Rightarrow> string \<Rightarrow> string list \<Rightarrow> string" where
  "type_error_numeric fig_name inputtype charttype name columnname types =
     fig_name @ '': De '' @ inputtype @ ''-data van de '' @ charttype @ '' ''
     @ [CHR 0x27] @ name @ [CHR 0x27]
     @ '' moet numeriek zijn. De volgende data types komen voor in kolom ''
     @ [CHR 0x27] @ columnname @ [CHR 0x27] @ '': '' @ py_repr_list types"

text \<open>
  Reading a table. \<^verbatim>\<open>t[c]\<close> with the value of a form field: a column the table lacks
  raises, and so does no name. A form field of a single choice holds a name or nothing;
  a list of names in such a field is taken as no name. \<^verbatim>\<open>t[mask]\<close> keeps the rows the
  mask holds for, with their labels.
\<close>

definition name_of :: "pyval \<Rightarrow> string option" where
  "name_of v = (case v of PStr s \<Rightarrow> Some s | _ \<Rightarrow> None)"

definition column_of :: "('n, 'g) frame \<Rightarrow> pyval \<Rightarrow> error + ('n, 'g) cell list" where
  "column_of t v =
     (case name_of v of
        None \<Rightarrow> Inl KeyError
      | Some c \<Rightarrow> if c \<in> set (columns t) then Inr (map (\<lambda>row. cell_of row c) (rows t))
                  else Inl KeyError)"

definition filter_rows :: "bool list \<Rightarrow> ('n, 'g) frame \<Rightarrow> ('n, 'g) frame" where
  "filter_rows keep t =
     t\<lparr>index := map snd (filter fst (zip keep (index t))),
       rows := map snd (filter fst (zip keep (rows t)))\<rparr>"

text \<open>
  The map figure. Of the wrapper \<^verbatim>\<open>plolty_gemeente_map_wrapper\<close> the loop over the layers
  reads the level only; the three functions that draw a layer, \<^verbatim>\<open>_process_choroplethmapbox\<close>,
  \<^verbatim>\<open>_process_categorical_choroplethmapbox\<close> and \<^verbatim>\<open>_process_bubble_mapbox\<close>, are parameters
  of the loop, and the traces they add are of a type \<open>'tr\<close>.
\<close>

record ('g, 'tr) map_wrapper =
  self_level :: string
  self_gdf_gemeente :: "'g shape list"
  self_figure :: "'tr list"
  self_scale_count :: nat
  self_category_count :: nat

definition code_starts :: "(string, string) dict" where
  "code_starts = [(''Buurt'', ''BU''), (''Wijk'', ''WK''), (''Gemeente'', ''GM'')]"

text \<open>
  The number of colours of \<^verbatim>\<open>basic_colors\<close>, plotly's qualitative palette \<^verbatim>\<open>Alphabet\<close>.
\<close>

definition len_basic_colors :: nat where
  "len_basic_colors = 26"

text \<open>
  The test of the region codes in \<^verbatim>\<open>_add_map_layers\<close>. \<^verbatim>\<open>region_codes.str[:2]\<close> and
  \<^verbatim>\<open>region_codes.str.len()\<close> are missing for a cell that is not a text, and a missing
  value differs from everything. The column is refused when no cell is a text, when
  every cell differs from the code signature in its first two characters, or when no
  cell has 10, no cell has 8 and no cell has 6 characters.
\<close>

definition is_str :: "('n, 'g) cell \<Rightarrow> bool" where
  "is_str v = (case v of Str _ \<Rightarrow> True | _ \<Rightarrow> False)"

definition str_slice2 :: "('n, 'g) cell \<Rightarrow> string option" where
  "str_slice2 v = (case v of Str s \<Rightarrow> Some (take 2 s) | _ \<Rightarrow> None)"

definition str_len :: "('n, 'g) cell \<Rightarrow> nat option" where
  "str_len v = (case v of Str s \<Rightarrow> Some (length s) | _ \<Rightarrow> None)"

definition refuses_codes :: "string \<Rightarrow> ('n, 'g) cell list \<Rightarrow> bool" where
  "refuses_codes code_start region_codes =
     (if list_ex is_str region_codes then
        list_all (\<lambda>v. str_slice2 v \<noteq> Some code_start) region_codes
        \<or> (list_all (\<lambda>v. str_len v \<noteq> Some 10) region_codes
           \<and> list_all (\<lambda>v. str_len v \<noteq> Some 8) region_codes
           \<and> list_all (\<lambda>v. str_len v \<noteq> Some 6) region_codes)
      else True)"

definition code_column_error :: "layer \<Rightarrow> string" where
  "code_column_error value =
     '': De kolom '' @ py_str (map_labels value) @ '' in '' @ py_str (selected_dataset value)
     @ '' bevat geen (correcte) '' @ py_str (map_level value) @ '' codes''"

text \<open>
  The part of the loop body after the test of the region codes: the layer is drawn
  according to its kind. A numeric layer whose data column cannot be cast to numbers
  adds an error instead; a categorical layer with a region code in more than one row
  adds a warning first, and one with more categories than colours adds an error.
\<close>

definition numeric_error :: "(('n, 'g) cell \<Rightarrow> string) \<Rightarrow> ('n, 'g) frame \<Rightarrow> layer \<Rightarrow> raise_data
   \<Rightarrow> error + raise_data" where
  "numeric_error py_type gdf value r =
     bind (column_of gdf (map_data value)) (\<lambda>column.
     bind (getitem error_names ''map_vis'') (\<lambda>n.
     Inr (r\<lparr>error := error r
            @ [type_error_numeric n ''visualisatie'' ''Numerieke kaart'' (layer_name value)
                 (py_str (map_data value)) (get_unique_types py_type column)]\<rparr>)))"

definition categorical_warning :: "layer \<Rightarrow> string" where
  "categorical_warning value =
     '': Categorische kaart '' @ layer_name value @ '' heeft per '' @ py_str (map_labels value)
     @ '' meer dan 1 categorie. Het is niet mogelijk om per gebied meerdere categorie''
     @ e_diaeresis @ ''n te visualiseren. Daarom is de categorie in de kaart de ''
     @ ''meest voorkomende categorie.''"

definition categories_error :: "string \<Rightarrow> string" where
  "categories_error n_categories =
     '': De categorische kaart kan maximaal '' @ str_nat len_basic_colors @ '' categorie''
     @ e_diaeresis @ ''n visualiseren. Deze visualisatie heeft '' @ n_categories
     @ '' unieke categorie'' @ e_diaeresis @ ''n.''"

definition value_counts :: "('n, 'g) cell list \<Rightarrow> nat list" where
  "value_counts xs =
     (let present = filter (\<lambda>v. v \<noteq> Null) xs
      in rev (sort (map (count_list present) (remdups present))))"

definition draw_map_layer ::
  "((('g, 'tr) map_wrapper \<Rightarrow> ('n, 'g) frame \<Rightarrow> layer \<Rightarrow> error + ('g, 'tr) map_wrapper))
   \<Rightarrow> ((('g, 'tr) map_wrapper \<Rightarrow> ('n, 'g) frame \<Rightarrow> layer \<Rightarrow> error + ('g, 'tr) map_wrapper))
   \<Rightarrow> ((('g, 'tr) map_wrapper \<Rightarrow> ('n, 'g) frame \<Rightarrow> layer \<Rightarrow> error + ('g, 'tr) map_wrapper))
   \<Rightarrow> (string \<Rightarrow> 'n option) \<Rightarrow> (('n, 'g) cell \<Rightarrow> string)
   \<Rightarrow> ('n, 'g) frame \<Rightarrow> layer \<Rightarrow> ('g, 'tr) map_wrapper \<times> raise_data
   \<Rightarrow> error + (('g, 'tr) map_wrapper \<times> raise_data)" where
  "draw_map_layer process_choroplethmapbox process_categorical_choroplethmapbox
       process_bubble_mapbox parse_float py_type gdf value state =
     (case state of (figure_wrapper, r) \<Rightarrow>
      if visualisation_type value = PNone then Inr (figure_wrapper, r)
      else if visualisation_type value = PStr ''choroplethmapbox'' then
        (case (if aggregate_method value \<noteq> PStr ''frequency''
               then astype_float parse_float gdf (name_of (map_data value)) else Inr gdf) of
           Inl ValueError \<Rightarrow> bind (numeric_error py_type gdf value r) (\<lambda>r. Inr (figure_wrapper, r))
         | Inl e \<Rightarrow> Inl e
         | Inr gdf \<Rightarrow>
             (case process_choroplethmapbox figure_wrapper gdf value of
                Inl ValueError \<Rightarrow>
                  bind (numeric_error py_type gdf value r) (\<lambda>r. Inr (figure_wrapper, r))
              | Inl e \<Rightarrow> Inl e
              | Inr figure_wrapper \<Rightarrow> Inr (figure_wrapper, r)))
      else if visualisation_type value = PStr ''categorical_choroplethmapbox'' then
        bind (column_of gdf (map_labels value)) (\<lambda>labels.
        bind (case value_counts labels of [] \<Rightarrow> Inl IndexError | n # _ \<Rightarrow> Inr n) (\<lambda>most.
        bind (if most > 1 then append_warning ''map_vis'' (categorical_warning value) r
              else Inr r) (\<lambda>r.
        case process_categorical_choroplethmapbox figure_wrapper gdf value of
          Inl (AssertionError e) \<Rightarrow>
            (case py_split ''categories '' e of
               _ # rest # _ \<Rightarrow>
                 (case py_split '' than colors '' rest of
                    n_categories # _ \<Rightarrow>
                      bind (append_error ''map_vis'' (categories_error n_categories) r) (\<lambda>r.
                      Inr (figure_wrapper, r))
                  | [] \<Rightarrow> Inl IndexError)
             | _ \<Rightarrow> Inl IndexError)
        | Inl e \<Rightarrow> Inl e
        | Inr figure_wrapper \<Rightarrow> Inr (figure_wrapper, r))))
      else if visualisation_type value = PStr ''bubble_mapbox'' then
        bind (process_bubble_mapbox figure_wrapper gdf value) (\<lambda>figure_wrapper.
        Inr (figure_wrapper, r))
      else Inr (figure_wrapper, r))"

text \<open>
  The body of the loop of \<^verbatim>\<open>_add_map_layers\<close>. \<open>all_data\<close> gives for the name of a
  dataset its table, as \<^verbatim>\<open>GeoDataFrame.from_features\<close> reads it from the store, with the
  columns of the dataset. The rows whose region code is the sentinel are left out; the
  level of the layer must be the level of the map; a column of region codes that is
  refused adds an error and the layer is passed over.
\<close>

definition level_message :: "layer \<Rightarrow> string \<Rightarrow> string" where
  "level_message value level =
     ''Regio van dataset '' @ py_str (selected_dataset value) @ '' ('' @ py_str (map_level value)
     @ '') komt niet overeen met de regio van de kaart ('' @ level @ '')''"

definition add_map_layer ::
  "((('g, 'tr) map_wrapper \<Rightarrow> ('n, 'g) frame \<Rightarrow> layer \<Rightarrow> error + ('g, 'tr) map_wrapper))
   \<Rightarrow> ((('g, 'tr) map_wrapper \<Rightarrow> ('n, 'g) frame \<Rightarrow> layer \<Rightarrow> error + ('g, 'tr) map_wrapper))
   \<Rightarrow> ((('g, 'tr) map_wrapper \<Rightarrow> ('n, 'g) frame \<Rightarrow> layer \<Rightarrow> error + ('g, 'tr) map_wrapper))
   \<Rightarrow> (string \<Rightarrow> 'n option) \<Rightarrow> (('n, 'g) cell \<Rightarrow> string)
   \<Rightarrow> (string, ('n, 'g) frame) dict \<Rightarrow> layer \<Rightarrow> ('g, 'tr) map_wrapper \<times> raise_data
   \<Rightarrow> error + (('g, 'tr) map_wrapper \<times> raise_data)" where
  "add_map_layer process_choroplethmapbox process_categorical_choroplethmapbox
       process_bubble_mapbox parse_float py_type all_data value state =
     (case state of (figure_wrapper, r) \<Rightarrow>
      bind (case name_of (selected_dataset value) of
              None \<Rightarrow> Inl KeyError
            | Some dataset_name \<Rightarrow> getitem all_data dataset_name) (\<lambda>gdf.
      bind (column_of gdf (map_labels value)) (\<lambda>labels.
      let gdf = filter_rows (map (\<lambda>v. v \<noteq> Str ''onbekend'') labels) gdf
      in
      if map_level value \<noteq> PStr (self_level figure_wrapper)
      then Inl (AssertionError (level_message value (self_level figure_wrapper)))
      else
        bind (getitem code_starts (self_level figure_wrapper)) (\<lambda>code_start.
        bind (column_of gdf (map_labels value)) (\<lambda>region_codes.
        if refuses_codes code_start region_codes
        then bind (append_error ''map_vis'' (code_column_error value) r) (\<lambda>r.
             Inr (figure_wrapper, r))
        else draw_map_layer process_choroplethmapbox process_categorical_choroplethmapbox
               process_bubble_mapbox parse_float py_type gdf value (figure_wrapper, r))))))"

text \<open>
  \<^verbatim>\<open>_add_map_layers\<close>: the loop over the layers of the map, in the order of the store.
\<close>

fun for_each :: "('a \<Rightarrow> 's \<Rightarrow> error + 's) \<Rightarrow> 'a list \<Rightarrow> 's \<Rightarrow> error + 's" where
  "for_each step [] s = Inr s"
| "for_each step (x # xs) s = bind (step x s) (for_each step xs)"

definition add_map_layers ::
  "((('g, 'tr) map_wrapper \<Rightarrow> ('n, 'g) frame \<Rightarrow> layer \<Rightarrow> error + ('g, 'tr) map_wrapper))
   \<Rightarrow> ((('g, 'tr) map_wrapper \<Rightarrow> ('n, 'g) frame \<Rightarrow> layer \<Rightarrow> error + ('g, 'tr) map_wrapper))
   \<Rightarrow> ((('g, 'tr) map_wrapper \<Rightarrow> ('n, 'g) frame \<Rightarrow> layer \<Rightarrow> error + ('g, 'tr) map_wrapper))
   \<Rightarrow> (string \<Rightarrow> 'n option) \<Rightarrow> (('n, 'g) cell \<Rightarrow> string)
   \<Rightarrow> ('g, 'tr) map_wrapper \<Rightarrow> layer_store \<Rightarrow> (string, ('n, 'g) frame) dict \<Rightarrow> raise_data
   \<Rightarrow> error + (('g, 'tr) map_wrapper \<times> raise_data)" where
  "add_map_layers process_choroplethmapbox process_categorical_choroplethmapbox
       process_bubble_mapbox parse_float py_type figure_wrapper layer_data all_data r =
     bind (getitem layer_data ''map_vis'') (\<lambda>layers.
     for_each (\<lambda>(key, value).
                 add_map_layer process_choroplethmapbox process_categorical_choroplethmapbox
                   process_bubble_mapbox parse_float py_type all_data value)
       layers (figure_wrapper, r))"

text \<open>
  The grouping in \<^verbatim>\<open>add_categorical_level_choroplethmapbox\<close>, its first two statements: the
  rows are counted per region and category, and then per region the greatest cell of
  every column is taken, of the category column too.
\<close>

definition categorical_groups ::
  "('n::linordered_field, 'g) frame \<Rightarrow> string \<Rightarrow> string \<Rightarrow> error + ('n, 'g) frame" where
  "categorical_groups gdf key_column categorie_column =
     bind (groupby_reduce Count gdf [key_column, categorie_column]) (\<lambda>grouped_gdf.
     groupby_reduce Max grouped_gdf [key_column])"

text \<open>
  An example: trees with the code of their neighbourhood. In \<open>ex_codes\<close> one cell of the
  code column is a code of a neighbourhood and the others are not codes at all. In
  \<open>ex_kinds\<close> the neighbourhood \<^verbatim>\<open>BU08551001\<close> has two oaks (eik) and one willow (wilg).
  \<open>ex_process\<close> stands for a function that draws a layer: it adds the name of the layer
  to the figure.
\<close>

definition ex_codes :: "(rat, unit) frame" where
  "ex_codes =
     \<lparr>columns = [''BU_CODE'', ''hoogte''],
      dtypes = [(''BU_CODE'', Object), (''hoogte'', Numeric)],
      index = [IntLabel 0, IntLabel 1, IntLabel 2],
      rows = [[(''BU_CODE'', Str ''BU08551001''), (''hoogte'', Num 12)],
              [(''BU_CODE'', Str ''XX''), (''hoogte'', Num 8)],
              [(''BU_CODE'', Num 5), (''hoogte'', Num 9)]]\<rparr>"

definition ex_kinds :: "(rat, unit) frame" where
  "ex_kinds =
     \<lparr>columns = [''BU_CODE'', ''soort'', ''hoogte''],
      dtypes = [(''BU_CODE'', Object), (''soort'', Object), (''hoogte'', Numeric)],
      index = [IntLabel 0, IntLabel 1, IntLabel 2, IntLabel 3],
      rows = [[(''BU_CODE'', Str ''BU08551001''), (''soort'', Str ''eik''), (''hoogte'', Num 12)],
              [(''BU_CODE'', Str ''BU08551001''), (''soort'', Str ''wilg''), (''hoogte'', Num 8)],
              [(''BU_CODE'', Str ''BU08551001''), (''soort'', Str ''eik''), (''hoogte'', Num 9)],
              [(''BU_CODE'', Str ''BU08551002''), (''soort'', Str ''beuk''), (''hoogte'', Num 20)]]\<rparr>"

definition ex_wijk_codes :: "(rat, unit) frame" where
  "ex_wijk_codes =
     \<lparr>columns = [''BU_CODE'', ''hoogte''],
      dtypes = [(''BU_CODE'', Object), (''hoogte'', Numeric)],
      index = [IntLabel 0, IntLabel 1],
      rows = [[(''BU_CODE'', Str ''WK085510''), (''hoogte'', Num 12)],
              [(''BU_CODE'', Str ''onbekend''), (''hoogte'', Num 8)]]\<rparr>"

definition ex_process ::
  "(unit, string) map_wrapper \<Rightarrow> (rat, unit) frame \<Rightarrow> layer \<Rightarrow> error + (unit, string) map_wrapper" where
  "ex_process figure_wrapper gdf value =
     Inr (figure_wrapper\<lparr>self_figure := self_figure figure_wrapper @ [layer_name value]\<rparr>)"

definition ex_py_type :: "(rat, unit) cell \<Rightarrow> string" where
  "ex_py_type v =
     [CHR 0x3C] @ ''class '' @ [CHR 0x27]
     @ (case v of Num _ \<Rightarrow> ''float'' | Str _ \<Rightarrow> ''str'' | Null \<Rightarrow> ''NoneType''
        | Geom _ \<Rightarrow> ''shapely.geometry.point.Point'')
     @ [CHR 0x27, CHR 0x3E]"

definition ex_wrapper :: "(unit, string) map_wrapper" where
  "ex_wrapper =
     \<lparr>self_level = ''Buurt'', self_gdf_gemeente = [], self_figure = [], self_scale_count = 0,
      self_category_count = 0\<rparr>"

definition ex_map_layer :: layer where
  "ex_map_layer =
     \<lparr>figure_name = PStr ''Bomen'', layer_name = ''bomen per buurt'',
      visualisation_type = PStr ''choroplethmapbox'', selected_dataset = PStr ''bomen'',
      x_data = PNone, x_axis = PNone, y_data = PNone, y_axis = PNone, mode = PNone,
      map_level = PStr ''Buurt'', map_data = PStr ''hoogte'', map_labels = PStr ''BU_CODE'',
      aggregate_method = PStr ''mean'', colormap = PStr ''viridis''\<rparr>"

definition ex_categorical_layer :: layer where
  "ex_categorical_layer =
     ex_map_layer\<lparr>layer_name := ''soorten'',
                  visualisation_type := PStr ''categorical_choroplethmapbox'',
                  selected_dataset := PStr ''soorten'', map_data := PStr ''soort''\<rparr>"

section \<open>Drawing the chart figures\<close>

text \<open>
  The two chart figures. A figure holds its traces and the titles the loop sets. Of a
  trace the model keeps the kind, the name and the data: \<^verbatim>\<open>go.Scatter(x, y, name)\<close>,
  \<^verbatim>\<open>go.Bar(x, y, name)\<close>, \<^verbatim>\<open>go.Pie(labels, values)\<close> and \<^verbatim>\<open>go.Histogram(x, name)\<close>.
\<close>

datatype ('n, 'g) chart_trace =
    Scatter string "('n, 'g) cell list" "('n, 'g) cell list"
  | Bar string "('n, 'g) cell list" "('n, 'g) cell list"
  | Pie "('n, 'g) cell list" "('n, 'g) cell list"
  | Histogram string "('n, 'g) cell list"
















section \<open>Properties\<close>

subsection \<open>Combining dictionaries\<close>

lemma keys_combine_data_dicts:
  "set (keys (combine_data_dicts data1 data2)) = set (keys data1) \<union> set (keys data2)"
  by (induction data1 data2 rule: combine_data_dicts.induct)
     (auto simp: keys_def dom_update)

lemma map_of_combine_data_dicts:
  "distinct (map fst data2) \<Longrightarrow>
   map_of (combine_data_dicts data1 data2) k =
     (case map_of data2 k of None \<Rightarrow> map_of data1 k | Some v \<Rightarrow> Some v)"
proof (induction data1 data2 rule: combine_data_dicts.induct)
  case (1 data1)
  then show ?case by simp
next
  case (2 data1 key v data2)
  have notin: "map_of data2 key = None"
    using "2.prems" by (simp add: map_of_eq_None_iff)
  show ?case
  proof (cases "k = key")
    case True
    with 2 notin show ?thesis by (simp add: update_conv' split: option.splits)
  next
    case False
    with 2 show ?thesis by (simp add: update_conv' split: option.splits)
  qed
qed

lemma wf_combine_data_dicts:
  "distinct (map fst data1) \<Longrightarrow> distinct (map fst (combine_data_dicts data1 data2))"
  by (induction data1 data2 rule: combine_data_dicts.induct) (auto simp: distinct_update)

text \<open>
  Claim C10. For dictionaries \<open>data1\<close> and \<open>data2\<close>, the keys of
  \<open>combine_data_dicts data1 data2\<close> are the keys of both, every key of \<open>data2\<close> maps
  to \<open>data2\<close>'s entry (so a real-time dataset shadows a user dataset of the same
  name), every other key keeps \<open>data1\<close>'s entry, and the dataset dropdown lists
  every name of the combined stores once, followed by the fixed empty option.
\<close>

theorem combine_data_dicts_shadows:
  assumes "wf_dict data1" and "wf_dict data2"
  shows "set (keys (combine_data_dicts data1 data2)) = set (keys data1) \<union> set (keys data2)
       \<and> (\<forall>k \<in> set (keys data2).
             map_of (combine_data_dicts data1 data2) k = map_of data2 k)
       \<and> (\<forall>k. k \<notin> set (keys data2) \<longrightarrow>
             map_of (combine_data_dicts data1 data2) k = map_of data1 k)
       \<and> wf_dict (combine_data_dicts data1 data2)
       \<and> fst (dropdown_options data1 data2) =
           map (\<lambda>k. (k, k)) (keys (combine_data_dicts data1 data2))
             @ [(''Laat geen data zien'', ''Leeg'')]"
proof -
  have d2: "distinct (map fst data2)" and d1: "distinct (map fst data1)"
    using assms by (simp_all add: wf_dict_def)
  have a: "\<forall>k \<in> set (keys data2). map_of (combine_data_dicts data1 data2) k = map_of data2 k"
  proof
    fix k assume "k \<in> set (keys data2)"
    then obtain v where "map_of data2 k = Some v"
      by (auto simp: keys_def dest: weak_map_of_SomeI)
    then show "map_of (combine_data_dicts data1 data2) k = map_of data2 k"
      by (simp add: map_of_combine_data_dicts [OF d2])
  qed
  have b: "\<forall>k. k \<notin> set (keys data2) \<longrightarrow>
             map_of (combine_data_dicts data1 data2) k = map_of data1 k"
  proof (intro allI impI)
    fix k assume "k \<notin> set (keys data2)"
    then have "map_of data2 k = None"
      by (simp add: keys_def map_of_eq_None_iff)
    then show "map_of (combine_data_dicts data1 data2) k = map_of data1 k"
      by (simp add: map_of_combine_data_dicts [OF d2])
  qed
  have c: "wf_dict (combine_data_dicts data1 data2)"
    by (simp add: wf_dict_def wf_combine_data_dicts [OF d1])
  have d: "fst (dropdown_options data1 data2) =
           map (\<lambda>k. (k, k)) (keys (combine_data_dicts data1 data2))
             @ [(''Laat geen data zien'', ''Leeg'')]"
    by (simp add: dropdown_options_def Let_def)
  show ?thesis
    by (intro conjI) (rule keys_combine_data_dicts a b c d)+
qed

theorem combine_data_dicts_shadows_witness:
  "wf_dict [(''a'', 1::nat), (''b'', 2)] \<and> wf_dict [(''b'', 7::nat), (''c'', 9)]
   \<and> map_of (combine_data_dicts [(''a'', 1::nat), (''b'', 2)] [(''b'', 7), (''c'', 9)]) ''b''
       = Some 7
   \<and> keys (combine_data_dicts [(''a'', 1::nat), (''b'', 2)] [(''b'', 7), (''c'', 9)])
       = [''a'', ''b'', ''c'']"
proof -
  have w1: "wf_dict [(''a'', 1::nat), (''b'', 2)]" by (simp add: wf_dict_def)
  have w2: "wf_dict [(''b'', 7::nat), (''c'', 9)]" by (simp add: wf_dict_def)
  have k: "''b'' \<in> set (keys [(''b'', 7::nat), (''c'', 9)])" by (simp add: keys_def)
  have "map_of (combine_data_dicts [(''a'', 1::nat), (''b'', 2)] [(''b'', 7), (''c'', 9)]) ''b''
          = map_of [(''b'', 7::nat), (''c'', 9)] ''b''"
    by (rule combine_data_dicts_shadows [OF w1 w2, THEN conjunct2, THEN conjunct1, THEN bspec, OF k])
  then show ?thesis using w1 w2 by (simp add: keys_def)
qed

subsection \<open>Delimiter inference\<close>

lemma set_most_common: "set (most_common xs) = (\<lambda>c. (c, count_list xs c)) ` set xs"
  by (simp add: most_common_def)

lemma get_sep_loop_Some:
  "get_sep_loop isalpha isdigit newline second l = Some c \<Longrightarrow>
   \<exists>freq. (c, freq) \<in> set l \<and> \<not> isalpha c \<and> \<not> isdigit c \<and> c \<noteq> newline
          \<and> count_list second c = freq"
  by (induction l) (auto split: if_splits)

lemma get_sep_loop_None:
  "get_sep_loop isalpha isdigit newline second l = None \<longleftrightarrow>
   (\<forall>p \<in> set l. isalpha (fst p) \<or> isdigit (fst p) \<or> fst p = newline
                  \<or> count_list second (fst p) \<noteq> snd p)"
proof (induction l)
  case Nil
  show ?case by simp
next
  case (Cons x l)
  obtain c freq where x: "x = (c, freq)" by (cases x)
  show ?case unfolding x using Cons.IH by simp
qed

text \<open>
  Claim C8. Let the text have at least two lines and let \<open>d\<close> be a character of the
  first line that is no letter, no digit and not the newline. If \<open>d\<close> occurs as often
  in the second line as in the first, and every other such candidate of the first line
  occurs a different number of times in the second, \<open>get_sep\<close> returns \<open>d\<close>
  without a warning. If no candidate of the first line has a matching count in the second
  line, it returns the tab with the warning.
\<close>

theorem get_sep_infers_delimiter:
  "(d \<in> set first \<and> \<not> isalpha d \<and> \<not> isdigit d \<and> d \<noteq> newline
      \<and> count_list second d = count_list first d
      \<and> (\<forall>c \<in> set first. c \<noteq> d \<and> \<not> isalpha c \<and> \<not> isdigit c \<and> c \<noteq> newline
             \<longrightarrow> count_list second c \<noteq> count_list first c)
     \<longrightarrow> get_sep isalpha isdigit newline tab (first # second # rest) = Inr (d, []))
   \<and> ((\<forall>c \<in> set first. \<not> isalpha c \<and> \<not> isdigit c \<and> c \<noteq> newline
             \<longrightarrow> count_list second c \<noteq> count_list first c)
     \<longrightarrow> get_sep isalpha isdigit newline tab (first # second # rest)
           = Inr (tab, [''No separator found. Using tab as separator'']))"
proof (intro conjI impI)
  assume h: "d \<in> set first \<and> \<not> isalpha d \<and> \<not> isdigit d \<and> d \<noteq> newline
      \<and> count_list second d = count_list first d
      \<and> (\<forall>c \<in> set first. c \<noteq> d \<and> \<not> isalpha c \<and> \<not> isdigit c \<and> c \<noteq> newline
             \<longrightarrow> count_list second c \<noteq> count_list first c)"
  let ?r = "get_sep_loop isalpha isdigit newline second (most_common first)"
  have m: "(d, count_list first d) \<in> set (most_common first)"
    using h by (simp add: set_most_common)
  have "?r \<noteq> None"
  proof
    assume "?r = None"
    then have "isalpha (fst (d, count_list first d)) \<or> isdigit (fst (d, count_list first d))
        \<or> fst (d, count_list first d) = newline
        \<or> count_list second (fst (d, count_list first d)) \<noteq> snd (d, count_list first d)"
      unfolding get_sep_loop_None using m by (rule bspec)
    with h show False by simp
  qed
  then obtain c where c: "?r = Some c" by blast
  from get_sep_loop_Some [OF c] obtain freq where
    f: "(c, freq) \<in> set (most_common first)" "\<not> isalpha c" "\<not> isdigit c" "c \<noteq> newline"
       "count_list second c = freq"
    by blast
  from f(1) have "c \<in> set first" "freq = count_list first c"
    by (auto simp: set_most_common)
  with f h have "c = d" by blast
  with c show "get_sep isalpha isdigit newline tab (first # second # rest) = Inr (d, [])"
    by (simp add: get_sep_def)
next
  assume h: "\<forall>c \<in> set first. \<not> isalpha c \<and> \<not> isdigit c \<and> c \<noteq> newline
             \<longrightarrow> count_list second c \<noteq> count_list first c"
  have "get_sep_loop isalpha isdigit newline second (most_common first) = None"
    unfolding get_sep_loop_None using h by (auto simp: set_most_common)
  then show "get_sep isalpha isdigit newline tab (first # second # rest)
           = Inr (tab, [''No separator found. Using tab as separator''])"
    by (simp add: get_sep_def)
qed

theorem get_sep_infers_delimiter_witness:
  "get_sep ascii_alpha ascii_digit (CHR 0x0A) (CHR 0x09) [''a,b;;c'', ''1,2;3'', ''4,5;6''] = Inr (CHR '','', [])
   \<and> get_sep ascii_alpha ascii_digit (CHR 0x0A) (CHR 0x09) [''a,b'', ''1;2''] =
        Inr (CHR 0x09, [''No separator found. Using tab as separator''])"
proof -
  have a: "CHR '','' \<in> set ''a,b;;c'' \<and> \<not> ascii_alpha (CHR '','') \<and> \<not> ascii_digit (CHR '','')
      \<and> CHR '','' \<noteq> CHR 0x0A
      \<and> count_list ''1,2;3'' (CHR '','') = count_list ''a,b;;c'' (CHR '','')
      \<and> (\<forall>c \<in> set ''a,b;;c''. c \<noteq> CHR '','' \<and> \<not> ascii_alpha c \<and> \<not> ascii_digit c \<and> c \<noteq> CHR 0x0A
             \<longrightarrow> count_list ''1,2;3'' c \<noteq> count_list ''a,b;;c'' c)"
    by (simp add: ascii_alpha_def ascii_digit_def)
  have b: "\<forall>c \<in> set ''a,b''. \<not> ascii_alpha c \<and> \<not> ascii_digit c \<and> c \<noteq> CHR 0x0A
             \<longrightarrow> count_list ''1;2'' c \<noteq> count_list ''a,b'' c"
    by (simp add: ascii_alpha_def ascii_digit_def)
  from get_sep_infers_delimiter [THEN conjunct1, THEN mp, OF a]
       get_sep_infers_delimiter [THEN conjunct2, THEN mp, OF b]
  show ?thesis by simp
qed

subsection \<open>Deleting the standard dataset\<close>

text \<open>
  Claim C9. The standard dataset is not protected: it is offered in the dropdown of
  deletable datasets, and the delete branch of \<open>load_real_time_data\<close> removes it from
  the real-time store when its name is the chosen one.
\<close>

theorem standard_dataset_is_deleted:
  "''meet je stad'' \<in> set standard_datasets
   \<and> change_deletable_datasets [] 1 [(''meet je stad'', d)] = [(''meet je stad'', ''meet je stad'')]
   \<and> load_real_time_data load_mjs region_type ''ed-delete-button-yes'' 0 0 ''Buurt''
         1 ''meet je stad'' shape_data [(''meet je stad'', d)] = Inr (Some ([], True))"
  by (simp add: standard_datasets_def change_deletable_datasets_def keys_def
        load_real_time_data_def pop_def)

subsection \<open>Committing a duplicate layer name\<close>

lemma bind_Inr [simp]: "bind (Inr x) f = f x"
  by (simp add: bind_def)

lemma bind_Inl [simp]: "bind (Inl e) f = Inl e"
  by (simp add: bind_def)

lemma py_index_total:
  "xs \<noteq> [] \<Longrightarrow> i = 0 \<or> i = - 1 \<Longrightarrow> \<exists>v. py_index xs i = Inr v"
  by (cases xs) (auto simp: py_index_def)

lemma layer_index_cases: "layer_index a = 0 \<or> layer_index a = - 1"
  by (simp add: layer_index_def)

lemma layer_field_total: "i = 0 \<or> i = - 1 \<Longrightarrow> \<exists>v. layer_field xs i = Inr v"
  using py_index_total [of xs i] by (simp add: layer_field_def)

lemma make_layer_total:
  assumes "i = 0 \<or> i = - 1"
  shows "\<exists>l. make_layer a n i = Inr l"
proof -
  obtain v1 where 1: "layer_field (arg_x_data a) i = Inr v1" using layer_field_total [OF assms] by blast
  obtain v2 where 2: "layer_field (arg_x_axis a) i = Inr v2" using layer_field_total [OF assms] by blast
  obtain v3 where 3: "layer_field (arg_y_data a) i = Inr v3" using layer_field_total [OF assms] by blast
  obtain v4 where 4: "layer_field (arg_y_axis a) i = Inr v4" using layer_field_total [OF assms] by blast
  obtain v5 where 5: "layer_field (arg_mode a) i = Inr v5" using layer_field_total [OF assms] by blast
  obtain v6 where 6: "layer_field (arg_map_level a) i = Inr v6" using layer_field_total [OF assms] by blast
  obtain v7 where 7: "layer_field (arg_map_data a) i = Inr v7" using layer_field_total [OF assms] by blast
  obtain v8 where 8: "layer_field (arg_map_labels a) i = Inr v8" using layer_field_total [OF assms] by blast
  obtain v9 where 9: "layer_field (arg_aggregate_method a) i = Inr v9" using layer_field_total [OF assms] by blast
  obtain v10 where 10: "layer_field (arg_colormap a) i = Inr v10" using layer_field_total [OF assms] by blast
  show ?thesis by (simp add: make_layer_def 1 2 3 4 5 6 7 8 9 10)
qed

lemma clicked_total: "i = 0 \<or> i = - 1 \<Longrightarrow> \<exists>b. clicked ns i = Inr b"
  using py_index_total [of ns i] by (auto simp: clicked_def)

lemma only_adds_refl: "only_adds n r (Inr r)"
  by (auto simp: only_adds_def)

lemma only_adds_error:
  "getitem error_names fig = Inr n \<Longrightarrow> m \<in> validation_messages \<Longrightarrow>
   only_adds n r (append_error fig m r)"
  by (auto simp: only_adds_def append_error_def)

lemma only_adds_warning:
  "getitem error_names fig = Inr n \<Longrightarrow> only_adds n r (append_warning fig m r)"
  by (auto simp: only_adds_def append_warning_def)

lemma only_adds_when_equal:
  "xs \<noteq> [] \<Longrightarrow> i = 0 \<or> i = - 1 \<Longrightarrow> only_adds n r (act r) \<Longrightarrow>
   only_adds n r (when_equal xs i v act r)"
  using py_index_total [of xs i] by (auto simp: when_equal_def only_adds_refl)

lemma only_adds_bind:
  "only_adds n r m \<Longrightarrow> (\<And>r'. only_adds n r' (f r')) \<Longrightarrow> only_adds n r (bind m f)"
  by (auto simp: only_adds_def) blast

lemma only_adds_validate_chart:
  assumes n: "getitem error_names (selected_fig a) = Inr n"
    and i: "i = 0 \<or> i = - 1"
    and fig: "selected_fig a \<in> set [''extra_vis_1'', ''extra_vis_2'']"
    and p: "validation_fields_present a"
  shows "only_adds n r (validate_chart a i r)"
proof -
  let ?five = "set (map PStr [''scatter'', ''barchart'', ''grouped_barchart'',
                              ''histogram'', ''grouped_histogram''])"
  let ?hist = "set (map PStr [''histogram'', ''grouped_histogram''])"
  from p fig have five: "selected_vis a \<in> ?five \<Longrightarrow> arg_x_data a \<noteq> [] \<and> arg_x_axis a \<noteq> []"
    and xy: "selected_vis a \<in> ?five \<Longrightarrow> selected_vis a \<notin> ?hist \<Longrightarrow>
             arg_y_data a \<noteq> [] \<and> arg_y_axis a \<noteq> []"
    and pie: "selected_vis a = PStr ''piechart'' \<Longrightarrow> arg_x_data a \<noteq> [] \<and> arg_y_data a \<noteq> []"
    unfolding validation_fields_present_def by (simp_all del: set_map list.set)
  have E: "\<And>m r. m \<in> validation_messages \<Longrightarrow> only_adds n r (append_error (selected_fig a) m r)"
    using only_adds_error [OF n] .
  have W: "\<And>m r. only_adds n r (append_warning (selected_fig a) m r)"
    using only_adds_warning [OF n] .
  have M: "'': Er is geen kolom opgegeven voor de x data.'' \<in> validation_messages"
      "'': Er is geen kolom opgegeven voor de y data.'' \<in> validation_messages"
      "'': Er is geen kolom opgegeven voor de labels.'' \<in> validation_messages"
      "'': Er is geen kolom opgegeven voor de bijbehorende waardes.'' \<in> validation_messages"
    by (simp_all add: validation_messages_def)
  have first: "only_adds n r
     (if selected_vis a \<in> ?five
      then
        bind (when_equal (arg_x_data a) i (PStr [])
                (append_error (selected_fig a) '': Er is geen kolom opgegeven voor de x data.'') r) (\<lambda>r.
        bind (when_equal (arg_x_axis a) i (PStr [])
                (append_warning (selected_fig a) '': Er is geen titel gegeven voor de x-as'') r) (\<lambda>r.
        if selected_vis a \<notin> ?hist
        then
          bind (when_equal (arg_y_data a) i (PStr [])
                  (append_error (selected_fig a) '': Er is geen kolom opgegeven voor de y data.'') r) (\<lambda>r.
          when_equal (arg_y_axis a) i (PStr [])
                  (append_warning (selected_fig a) '': Er is geen titel gegeven voor de y-as'') r)
        else Inr r))
      else Inr r)" for r
  proof (cases "selected_vis a \<in> ?five")
    case False
    show ?thesis unfolding if_not_P [OF False] by (rule only_adds_refl)
  next
    case True
    note f = five [OF True]
    show ?thesis
    proof (cases "selected_vis a \<notin> ?hist")
      case False
      show ?thesis unfolding if_P [OF True] if_not_P [OF False]
        by (intro only_adds_bind only_adds_when_equal E W M only_adds_refl i conjunct1 [OF f]
              conjunct2 [OF f])
    next
      case h: True
      note g = xy [OF True h]
      show ?thesis unfolding if_P [OF True] if_P [OF h]
        by (intro only_adds_bind only_adds_when_equal E W M only_adds_refl i conjunct1 [OF f]
              conjunct2 [OF f] conjunct1 [OF g] conjunct2 [OF g])
    qed
  qed
  have second: "only_adds n r
     (if selected_vis a = PStr ''piechart''
      then
        bind (when_equal (arg_x_data a) i (PStr [])
                (append_error (selected_fig a) '': Er is geen kolom opgegeven voor de labels.'') r) (\<lambda>r.
        when_equal (arg_y_data a) i (PStr [])
                (append_error (selected_fig a) '': Er is geen kolom opgegeven voor de bijbehorende waardes.'') r)
      else Inr r)" for r
  proof (cases "selected_vis a = PStr ''piechart''")
    case False
    show ?thesis unfolding if_not_P [OF False] by (rule only_adds_refl)
  next
    case True
    note f = pie [OF True]
    show ?thesis unfolding if_P [OF True]
      by (intro only_adds_bind only_adds_when_equal E M i conjunct1 [OF f] conjunct2 [OF f])
  qed
  show ?thesis
    unfolding validate_chart_def Let_def
    by (rule only_adds_bind [OF first second])
qed

lemma duplicate_message_not_validation:
  "duplicate_message name \<notin> validation_messages"
  by (simp add: duplicate_message_def validation_messages_def)

text \<open>
  Claim C3. When the save button fired, the figure slot is one of the three, the name of
  the layer (the given one, or the default for a blank one) is already in the slot of the
  store and the edit selection is not that name, then \<open>save_layer\<close> returns
  \<^verbatim>\<open>no_update\<close> for the store and diagnostics in which exactly one error is the one naming
  the duplicate (errors of the field validation may stand beside it).
\<close>

theorem save_layer_rejects_duplicate:
  assumes save: "sublist ''button-quit'' (trigger a)"
      "clicked (n_clicks_quit a) (layer_index a) = Inr True"
    and given: "py_index (arg_layer_name a) (layer_index a) = Inr given"
    and name: "name = (if given \<noteq> [] then given else ''Laag zonder naam'')"
    and store: "arg_layer_data a = Some store" "map_of store (selected_fig a) = Some layers"
      "name \<in> set (keys layers)"
    and edit: "add_or_edit a \<noteq> PStr name"
    and fig: "getitem error_names (selected_fig a) = Inr n"
    and present: "validation_fields_present a"
  shows "\<exists>r. save_layer a = Inr (Some (no_update, r))
           \<and> count_list (error r) (n @ duplicate_message name) = 1"
proof -
  let ?i = "layer_index a"
  let ?fig = "selected_fig a"
  let ?r0 = "\<lparr>warning = [], error = []\<rparr>"
  note i = layer_index_cases [of a]
  obtain dc where dc: "clicked (n_clicks_delete a) ?i = Inr dc"
    using clicked_total [OF i] by blast
  have top: "save_layer a = bind (save_branch a ?i) (\<lambda>out. Inr (Some out))"
    by (simp add: save_layer_def Let_def save dc)
  have infig: "?fig \<in> set (keys store)"
  proof -
    from store(2) have "?fig \<in> dom (map_of store)" by blast
    then show ?thesis by (simp add: dom_map_of_conv_image_fst keys_def)
  qed
  have layers: "getitem store ?fig = Inr layers"
    by (simp add: getitem_def store(2))
  \<comment> \<open>the name of the layer\<close>
  obtain r1 where r1:
    "(if given \<noteq> [] then Inr (given, ?r0)
      else bind (append_warning ?fig
                   ('': De zojuist toegevoegde laag heeft geen naam gekregen. Deze visualisatie ''
                    @ ''krijgt de naam (Laag zonder naam)'') ?r0)
             (\<lambda>r. Inr (''Laag zonder naam'', r))) = Inr (name, r1)"
    and e1: "error r1 = []"
    using fig by (cases "given = []") (simp_all add: name append_warning_def)
  \<comment> \<open>the validation of the fields\<close>
  have "only_adds n r1
     (if ?fig \<in> set [''extra_vis_1'', ''extra_vis_2''] then validate_chart a ?i r1
      else when_equal (arg_map_labels a) ?i PNone
             (append_error ?fig '': Er is geen regio code (GM/WK/BU) meegegeven.'') r1)"
  proof (cases "?fig \<in> set [''extra_vis_1'', ''extra_vis_2'']")
    case True
    show ?thesis unfolding if_P [OF True]
      by (rule only_adds_validate_chart [OF fig i True present])
  next
    case False
    from present have ml: "arg_map_labels a \<noteq> []"
      unfolding validation_fields_present_def if_not_P [OF False] .
    have m: "'': Er is geen regio code (GM/WK/BU) meegegeven.'' \<in> validation_messages"
      by (simp add: validation_messages_def)
    show ?thesis unfolding if_not_P [OF False]
      by (rule only_adds_when_equal [OF ml i only_adds_error [OF fig m]])
  qed
  then obtain r2 where r2:
    "(if ?fig \<in> set [''extra_vis_1'', ''extra_vis_2''] then validate_chart a ?i r1
      else when_equal (arg_map_labels a) ?i PNone
             (append_error ?fig '': Er is geen regio code (GM/WK/BU) meegegeven.'') r1) = Inr r2"
    and e2: "set (error r2) \<subseteq> (\<lambda>m. n @ m) ` validation_messages"
    unfolding only_adds_def using e1 by auto
  \<comment> \<open>the duplicate\<close>
  let ?r3 = "r2\<lparr>error := error r2 @ [n @ duplicate_message name]\<rparr>"
  have dup: "(if name \<in> set (keys layers) \<and> add_or_edit a \<noteq> PStr name
              then append_error ?fig (duplicate_message name) r2 else Inr r2) = Inr ?r3"
    using store(3) edit fig by (simp add: append_error_def)
  obtain layer where layer: "make_layer a name ?i = Inr layer"
    using make_layer_total [OF i] by blast
  have branch: "save_branch a ?i = Inr (no_update, ?r3)"
    unfolding save_branch_def Let_def
    by (simp add: store(1) infig given r1 r2 layers dup layer del: set_map list.set)
  have "n @ duplicate_message name \<notin> set (error r2)"
  proof
    assume "n @ duplicate_message name \<in> set (error r2)"
    with e2 obtain m where "m \<in> validation_messages" "n @ duplicate_message name = n @ m"
      by blast
    then show False using duplicate_message_not_validation [of name] by simp
  qed
  then have "count_list (error ?r3) (n @ duplicate_message name) = 1"
    by (simp add: count_list_0_iff)
  with top branch show ?thesis by simp
qed

theorem save_layer_rejects_duplicate_witness:
  "save_layer ex_args =
     Inr (Some (no_update,
       \<lparr>warning = [''Grafiek 1: Er is geen titel gegeven voor de x-as''],
        error = [''Grafiek 1: Er is geen kolom opgegeven voor de y data.'',
                 ''Grafiek 1: Laag naam (temp) bestaat al voor dit figuur. Kies een andere naam voor deze visualisatie.'']\<rparr>))
   \<and> (\<exists>r. save_layer ex_args = Inr (Some (no_update, r))
           \<and> count_list (error r) (''Grafiek 1'' @ duplicate_message ''temp'') = 1)"
proof -
  have li: "layer_index ex_args = 0" by (simp add: layer_index_def ex_args_def)
  have 1: "sublist ''button-quit'' (trigger ex_args)"
    by (simp add: ex_args_def sublist_code prefix_code)
  have 2: "clicked (n_clicks_quit ex_args) (layer_index ex_args) = Inr True"
    unfolding li by (simp add: clicked_def py_index_def ex_args_def)
  have 3: "py_index (arg_layer_name ex_args) (layer_index ex_args) = Inr ''temp''"
    unfolding li by (simp add: py_index_def ex_args_def)
  have 4: "''temp'' = (if ''temp'' \<noteq> [] then ''temp'' else ''Laag zonder naam'')" by simp
  have 5: "arg_layer_data ex_args = Some [(''extra_vis_1'', [(''temp'', ex_layer)])]"
    by (simp add: ex_args_def)
  have 6: "map_of [(''extra_vis_1'', [(''temp'', ex_layer)])] (selected_fig ex_args)
             = Some [(''temp'', ex_layer)]"
    by (simp add: ex_args_def)
  have 7: "''temp'' \<in> set (keys [(''temp'', ex_layer)])" by (simp add: keys_def)
  have 8: "add_or_edit ex_args \<noteq> PStr ''temp''" by (simp add: ex_args_def)
  have 9: "getitem error_names (selected_fig ex_args) = Inr ''Grafiek 1''"
    by (simp add: getitem_def error_names_def ex_args_def)
  have 10: "validation_fields_present ex_args"
    by (simp add: validation_fields_present_def ex_args_def)
  note w = save_layer_rejects_duplicate [OF 1 2 3 4 5 6 7 8 9 10]
  then obtain r where r: "save_layer ex_args = Inr (Some (no_update, r))"
    "count_list (error r) (''Grafiek 1'' @ duplicate_message ''temp'') = 1" by blast
  have v: "save_layer ex_args =
     Inr (Some (no_update,
       \<lparr>warning = [''Grafiek 1: Er is geen titel gegeven voor de x-as''],
        error = [''Grafiek 1: Er is geen kolom opgegeven voor de y data.'',
                 ''Grafiek 1: Laag naam (temp) bestaat al voor dit figuur. Kies een andere naam voor deze visualisatie.'']\<rparr>))"
    by code_simp
  from v w show ?thesis by (intro conjI)
qed

subsection \<open>The spatial join\<close>

lemma map_raise_Inr:
  "map_raise f xs = Inr ys \<Longrightarrow>
   length ys = length xs \<and> (\<forall>i < length xs. f (xs ! i) = Inr (ys ! i))"
proof (induction xs arbitrary: ys)
  case Nil
  then show ?case by simp
next
  case (Cons x xs)
  from Cons.prems obtain y ys' where y: "f x = Inr y" and ys': "map_raise f xs = Inr ys'"
    and eq: "ys = y # ys'"
    by (cases "f x"; cases "map_raise f xs") auto
  from Cons.IH [OF ys'] show ?case
    by (auto simp: eq y nth_Cons split: nat.splits)
qed

lemma map_raise_total:
  "(\<And>x. x \<in> set xs \<Longrightarrow> \<exists>y. f x = Inr y) \<Longrightarrow> \<exists>ys. map_raise f xs = Inr ys"
proof (induction xs)
  case Nil
  show ?case by simp
next
  case (Cons x xs)
  obtain y where "f x = Inr y" using Cons.prems [of x] by auto
  moreover obtain ys where "map_raise f xs = Inr ys" using Cons by force
  ultimately show ?case by simp
qed

lemma filter_first:
  "j < length xs \<Longrightarrow> P (xs ! j) \<Longrightarrow> (\<And>k. k < j \<Longrightarrow> \<not> P (xs ! k)) \<Longrightarrow>
   \<exists>rest. filter P xs = xs ! j # rest"
proof (induction xs arbitrary: j)
  case Nil
  then show ?case by simp
next
  case (Cons x xs)
  show ?case
  proof (cases j)
    case 0
    with Cons.prems show ?thesis by simp
  next
    case (Suc j')
    have nx: "\<not> P x" using Cons.prems(3) [of 0] Suc by simp
    have "\<exists>rest. filter P xs = xs ! j' # rest"
    proof (rule Cons.IH)
      show "j' < length xs" using Cons.prems(1) Suc by simp
      show "P (xs ! j')" using Cons.prems(2) Suc by simp
      show "\<not> P (xs ! k)" if "k < j'" for k
        using Cons.prems(3) [of "Suc k"] that Suc by simp
    qed
    with nx Suc show ?thesis by simp
  qed
qed

lemma add_level_column_first:
  assumes "map_of row ''geometry'' = Some (Geom p)"
    and "j < length shapes" "contains (shape_geometry (shapes ! j)) p"
    and "\<And>k. k < j \<Longrightarrow> \<not> contains (shape_geometry (shapes ! k)) p"
  shows "add_level_column contains row shapes (Some code) =
           Inr (Str (shape_code (shapes ! j)), Str (shape_name (shapes ! j)))"
proof -
  obtain rest where "filter (\<lambda>s. contains (shape_geometry s) p) shapes = shapes ! j # rest"
    using filter_first [of j shapes "\<lambda>s. contains (shape_geometry s) p"] assms(2-4) by blast
  then show ?thesis by (simp add: add_level_column_def getitem_def assms(1))
qed

lemma add_level_column_none:
  assumes "map_of row ''geometry'' = Some (Geom p)"
    and "\<And>s. s \<in> set shapes \<Longrightarrow> \<not> contains (shape_geometry s) p"
  shows "add_level_column contains row shapes (Some code) = Inr (Str ''onbekend'', Str ''onbekend'')"
proof -
  have "filter (\<lambda>s. contains (shape_geometry s) p) shapes = []"
    using assms(2) by (simp add: filter_empty_conv)
  then show ?thesis by (simp add: add_level_column_def getitem_def assms(1))
qed

lemma add_level_column_total:
  assumes "map_of row ''geometry'' = Some (Geom p)"
  shows "\<exists>y. add_level_column contains row shapes (Some code) = Inr y"
  using assms
  by (auto simp: add_level_column_def getitem_def split: list.splits)

lemma reindex_default: "reindex vs (default_index (length vs)) = vs"
  by (rule nth_equalityI) (simp_all add: reindex_def default_index_def)

lemma keys_update:
  "keys (AList.update c v row) = (if c \<in> set (keys row) then keys row else keys row @ [c])"
  by (simp add: keys_def update_keys)

lemma cell_of_update: "cell_of (AList.update c v row) k = (if k = c then v else cell_of row k)"
  by (simp add: cell_of_def update_conv')

lemma map_of_cell_of: "cell_of row c = Geom p \<Longrightarrow> map_of row c = Some (Geom p)"
  by (simp add: cell_of_def split: option.splits)

lemma wf_frame_dtype:
  assumes "wf_frame t" and "row \<in> set (rows t)" and "map_of (dtypes t) c = Some d"
  shows "conforms d (cell_of row c)"
proof -
  have "(c, d) \<in> set (dtypes t)" using assms(3) by (rule map_of_SomeD)
  moreover have "list_all (\<lambda>(c, d). conforms d (cell_of row c)) (dtypes t)"
    using assms(1,2) by (simp add: wf_frame_def list_all_iff)
  ultimately show ?thesis by (auto simp: list_all_iff)
qed

lemma set_column_frame:
  assumes wf: "wf_frame t" and len: "length vs = length (rows t)"
    and vs: "list_all (conforms d) vs"
  shows "wf_frame (set_column c d vs t)"
    and "index (set_column c d vs t) = index t"
    and "set (columns (set_column c d vs t)) = insert c (set (columns t))"
    and "length (rows (set_column c d vs t)) = length (rows t)"
    and "\<forall>i < length (rows t).
           rows (set_column c d vs t) ! i = AList.update c (vs ! i) (rows t ! i)"
proof -
  let ?t' = "set_column c d vs t"
  show "index ?t' = index t" by (simp add: set_column_def)
  show "set (columns ?t') = insert c (set (columns t))"
    by (auto simp: set_column_def)
  show l: "length (rows ?t') = length (rows t)"
    using len by (simp add: set_column_def)
  show r: "\<forall>i < length (rows t). rows ?t' ! i = AList.update c (vs ! i) (rows t ! i)"
    using len by (simp add: set_column_def)
  have k: "keys row = columns t" if "row \<in> set (rows t)" for row
    using wf that by (simp add: wf_frame_def list_all_iff)
  have kd: "keys (dtypes t) = columns t" and dc: "distinct (columns t)"
    using wf by (simp_all add: wf_frame_def)
  have kd': "keys (dtypes ?t') = columns ?t'"
    using kd by (simp add: set_column_def keys_def update_keys)
  have dc': "distinct (columns ?t')"
    using dc by (simp add: set_column_def)
  have "keys row = columns ?t' \<and> list_all (\<lambda>(c, d). conforms d (cell_of row c)) (dtypes ?t')"
    if "row \<in> set (rows ?t')" for row
  proof -
    from that obtain i where i: "i < length (rows t)" and ri: "row = rows ?t' ! i"
      unfolding in_set_conv_nth l by blast
    have row: "row = AList.update c (vs ! i) (rows t ! i)" using r i ri by simp
    have old: "rows t ! i \<in> set (rows t)" using i by simp
    have "keys (rows t ! i) = columns t" using k old by simp
    then have a: "keys row = columns ?t'" by (simp add: row keys_def update_keys set_column_def)
    have "conforms d' (cell_of row c')" if "(c', d') \<in> set (dtypes ?t')" for c' d'
    proof -
      have "distinct (map fst (dtypes ?t'))" using kd' dc' by (simp add: keys_def)
      then have m: "map_of (dtypes ?t') c' = Some d'" using that by simp
      show ?thesis
      proof (cases "c' = c")
        case True
        then have "d' = d" using m by (simp add: set_column_def update_conv')
        moreover have "conforms d (vs ! i)" using vs i len by (simp add: list_all_length)
        ultimately show ?thesis using True by (simp add: row cell_of_update)
      next
        case False
        then have "map_of (dtypes t) c' = Some d'" using m by (simp add: set_column_def update_conv')
        from wf_frame_dtype [OF wf old this] show ?thesis
          using False by (simp add: row cell_of_update)
      qed
    qed
    then have "list_all (\<lambda>(c, d). conforms d (cell_of row c)) (dtypes ?t')"
      by (auto simp: list_all_iff)
    with a show ?thesis by simp
  qed
  moreover have "length (index ?t') = length (rows ?t')"
    using wf len by (simp add: set_column_def wf_frame_def)
  ultimately show "wf_frame ?t'"
    using kd' dc' by (simp add: wf_frame_def list_all_iff)
qed

text \<open>
  Giving a table its geometry column: the result is the table with the point of each row
  in the column \<^verbatim>\<open>geometry\<close>.
\<close>

lemma to_geo_points:
  assumes wf: "wf_frame (frame_of df)"
    and cols: "\<forall>t. df = DataFrame t \<longrightarrow> lon_name \<in> set (columns t) \<and> lat_name \<in> set (columns t)"
    and points: "\<forall>row \<in> set (rows (frame_of df)).
                   point_of points_from_xy df lat_name lon_name row \<noteq> None"
  shows "\<exists>g. to_geo points_from_xy df lat_name lon_name = Inr g
           \<and> wf_frame g \<and> index g = index (frame_of df)
           \<and> length (rows g) = length (rows (frame_of df))
           \<and> set (columns g) = set (columns (frame_of df))
                 \<union> (case df of DataFrame _ \<Rightarrow> {''geometry''} | GeoDataFrame _ \<Rightarrow> {})
           \<and> (\<forall>i < length (rows (frame_of df)).
                 (\<forall>c. c \<noteq> ''geometry'' \<longrightarrow>
                      cell_of (rows g ! i) c = cell_of (rows (frame_of df) ! i) c)
               \<and> (\<forall>p. point_of points_from_xy df lat_name lon_name (rows (frame_of df) ! i)
                          = Some p
                       \<longrightarrow> map_of (rows g ! i) ''geometry'' = Some (Geom p)))"
proof (cases df)
  case (GeoDataFrame t)
  have "map_of (rows t ! i) ''geometry'' = Some (Geom p)"
    if "point_of points_from_xy df lat_name lon_name (rows t ! i) = Some p" for i p
    using that unfolding GeoDataFrame
    by (auto simp: point_of_def intro: map_of_cell_of split: cell.splits)
  then show ?thesis
    using wf by (simp add: GeoDataFrame to_geo_def frame_of_def)
next
  case (DataFrame t)
  let ?f = "\<lambda>row. points_from_xy (cell_of row lon_name) (cell_of row lat_name)"
  have t: "frame_of df = t" by (simp add: DataFrame frame_of_def)
  have "\<exists>y. ?f x = Inr y" if "x \<in> set (rows t)" for x
  proof -
    have "x \<in> set (rows (frame_of df))" using that by (simp add: t)
    from points [rule_format, OF this] show ?thesis
      by (simp add: DataFrame point_of_def split: sum.splits)
  qed
  then obtain ps where ps: "map_raise ?f (rows t) = Inr ps"
    using map_raise_total [of "rows t" ?f] by blast
  note m = map_raise_Inr [OF ps]
  let ?g = "set_column ''geometry'' Geometry (map Geom ps) t"
  have len: "length (map Geom ps) = length (rows t)" using m by simp
  have conf: "list_all (conforms Geometry) (map Geom ps :: ('a, 'b) cell list)"
    by (simp add: list_all_iff)
  note sc = set_column_frame [OF wf [unfolded t] len conf, of "''geometry''"]
  have res: "to_geo points_from_xy df lat_name lon_name = Inr ?g"
    using cols by (simp add: DataFrame to_geo_def ps)
  have row: "(\<forall>c. c \<noteq> ''geometry'' \<longrightarrow> cell_of (rows ?g ! i) c = cell_of (rows t ! i) c)
           \<and> (\<forall>p. point_of points_from_xy df lat_name lon_name (rows t ! i) = Some p
                   \<longrightarrow> map_of (rows ?g ! i) ''geometry'' = Some (Geom p))"
    if i: "i < length (rows t)" for i
  proof -
    have r: "rows ?g ! i = AList.update ''geometry'' (Geom (ps ! i)) (rows t ! i)"
      using sc(5) i m by simp
    have f: "?f (rows t ! i) = Inr (ps ! i)" using m i by simp
    show ?thesis
      unfolding r DataFrame
      by (simp add: cell_of_update update_conv' point_of_def f)
  qed
  show ?thesis
    unfolding t
    using res sc(1-4) row by (intro exI [of _ ?g]) (simp add: DataFrame)
qed

lemma set_column_from_default:
  assumes "index t = default_index (length (rows t))" and "length vs = length (rows t)"
  shows "set_column_from c vs t = set_column c Object vs t"
  using reindex_default [of vs] assms by (simp add: set_column_from_def)

lemma level_columns:
  assumes "get_code level = Some code"
  shows "code \<noteq> naam_column code" and "code \<noteq> ''geometry''" and "naam_column code \<noteq> ''geometry''"
  using assms by (auto simp: get_code_def naam_column_def split: if_splits)

text \<open>
  Claim C1. Let the level be one of the three and let the points
  table have at least one row, the default index, and a point in every row: its geometry
  if the table is a \<^verbatim>\<open>GeoDataFrame\<close>, the point of its longitude and latitude if it is a
  plain table. Then the spatial join returns the table with the same index and the same
  rows in the same order. Its columns are those given and the two columns of the level,
  region code and region name (and the geometry column, for a plain table). Every cell
  of another column is as it was, and the geometry of a row is its point. A row whose
  point is contained in a shape receives the code and the name of the first such shape
  in the order of the shapes (so of the only one, if there is exactly one); a row whose
  point no shape contains receives the pair of sentinels.
\<close>

theorem aggregate_point_data_assigns_region:
  assumes level: "get_code level = Some code"
    and wf: "wf_frame (frame_of df)"
    and nonempty: "rows (frame_of df) \<noteq> []"
    and default: "index (frame_of df) = default_index (length (rows (frame_of df)))"
    and cols: "\<forall>t. df = DataFrame t \<longrightarrow> lon_name \<in> set (columns t) \<and> lat_name \<in> set (columns t)"
    and points: "\<forall>row \<in> set (rows (frame_of df)).
                   point_of points_from_xy df lat_name lon_name row \<noteq> None"
  shows "\<exists>out. aggregate_point_data contains points_from_xy df shapes level lat_name lon_name
                 = Inr out
           \<and> wf_frame out
           \<and> index out = index (frame_of df)
           \<and> set (columns out) = set (columns (frame_of df)) \<union> {code, naam_column code}
                 \<union> (case df of DataFrame _ \<Rightarrow> {''geometry''} | GeoDataFrame _ \<Rightarrow> {})
           \<and> length (rows out) = length (rows (frame_of df))
           \<and> (\<forall>i < length (rows (frame_of df)).
                 (\<forall>c. c \<noteq> code \<and> c \<noteq> naam_column code \<and> c \<noteq> ''geometry''
                       \<longrightarrow> cell_of (rows out ! i) c = cell_of (rows (frame_of df) ! i) c)
               \<and> (\<forall>p. point_of points_from_xy df lat_name lon_name (rows (frame_of df) ! i)
                          = Some p \<longrightarrow>
                     cell_of (rows out ! i) ''geometry'' = Geom p
                   \<and> (\<forall>j < length shapes.
                         contains (shape_geometry (shapes ! j)) p
                         \<and> (\<forall>k < j. \<not> contains (shape_geometry (shapes ! k)) p)
                         \<longrightarrow> cell_of (rows out ! i) code = Str (shape_code (shapes ! j))
                           \<and> cell_of (rows out ! i) (naam_column code)
                               = Str (shape_name (shapes ! j)))
                   \<and> ((\<forall>s \<in> set shapes. \<not> contains (shape_geometry s) p)
                         \<longrightarrow> cell_of (rows out ! i) code = Str ''onbekend''
                           \<and> cell_of (rows out ! i) (naam_column code) = Str ''onbekend'')))"
proof -
  let ?t = "frame_of df"
  let ?n = "length (rows ?t)"
  let ?pt = "point_of points_from_xy df lat_name lon_name"
  let ?f = "\<lambda>x. add_level_column contains x shapes (Some code)"
  let ?name = "naam_column code"
  note lc = level_columns [OF level]
  from to_geo_points [OF wf cols points]
  obtain g where geo: "to_geo points_from_xy df lat_name lon_name = Inr g"
    and wfg: "wf_frame g" and ig: "index g = index ?t" and lg: "length (rows g) = ?n"
    and cg: "set (columns g) = set (columns ?t)
                 \<union> (case df of DataFrame _ \<Rightarrow> {''geometry''} | GeoDataFrame _ \<Rightarrow> {})"
    and rg: "\<forall>i < ?n.
                 (\<forall>c. c \<noteq> ''geometry'' \<longrightarrow> cell_of (rows g ! i) c = cell_of (rows ?t ! i) c)
               \<and> (\<forall>p. ?pt (rows ?t ! i) = Some p
                       \<longrightarrow> map_of (rows g ! i) ''geometry'' = Some (Geom p))"
    by blast
  have pt: "\<exists>p. ?pt (rows ?t ! i) = Some p" if "i < ?n" for i
  proof -
    have "rows ?t ! i \<in> set (rows ?t)" using that by simp
    from points [rule_format, OF this] show ?thesis by blast
  qed
  have gp: "\<exists>p. map_of (rows g ! i) ''geometry'' = Some (Geom p)" if "i < ?n" for i
    using pt [OF that] rg that by blast
  have rows_g: "rows g \<noteq> []" using lg nonempty by auto
  have cols_g: "columns g \<noteq> []"
  proof -
    have 0: "0 < ?n" using nonempty by simp
    obtain p where "map_of (rows g ! 0) ''geometry'' = Some (Geom p)" using gp [OF 0] by blast
    then have "(''geometry'', Geom p) \<in> set (rows g ! 0)" by (rule map_of_SomeD)
    then have "''geometry'' \<in> set (keys (rows g ! 0))" by (force simp: keys_def)
    moreover have "keys (rows g ! 0) = columns g"
      using wfg rows_g by (simp add: wf_frame_def list_all_iff)
    ultimately show ?thesis by auto
  qed
  have "\<exists>y. ?f x = Inr y" if "x \<in> set (rows g)" for x
  proof -
    from that obtain i where i: "i < ?n" and x: "x = rows g ! i"
      unfolding in_set_conv_nth lg by blast
    from gp [OF i] obtain p where "map_of x ''geometry'' = Some (Geom p)"
      unfolding x by blast
    then show ?thesis by (rule add_level_column_total)
  qed
  then obtain cc where cc: "map_raise ?f (rows g) = Inr cc"
    using map_raise_total [of "rows g" ?f] by blast
  note m = map_raise_Inr [OF cc]
  let ?g1 = "set_column code Object (map fst cc) g"
  let ?out = "set_column ?name Object (map snd cc) ?g1"
  have ob: "list_all (conforms Object) vs" for vs :: "('a, 'b) cell list"
    by (simp add: list_all_iff)
  have l1: "length (map fst cc) = length (rows g)" using m by simp
  note s1 = set_column_frame [OF wfg l1 ob, of code]
  have l2: "length (map snd cc) = length (rows ?g1)" using m s1(4) by simp
  note s2 = set_column_frame [OF s1(1) l2 ob, of ?name]
  have d1: "index g = default_index (length (rows g))" using ig default lg by simp
  have d2: "index ?g1 = default_index (length (rows ?g1))" using d1 s1(2,4) by simp
  have e1: "set_column_from code (map fst cc) g = ?g1"
    by (rule set_column_from_default [OF d1 l1])
  have e2: "set_column_from ?name (map snd cc) ?g1 = ?out"
    by (rule set_column_from_default [OF d2 l2])
  have res: "aggregate_point_data contains points_from_xy df shapes level lat_name lon_name
               = Inr ?out"
    using rows_g cols_g
    by (simp add: aggregate_point_data_def Let_def level geo apply_rows_def cc to_list_def e1 e2)
  have idx: "index ?out = index ?t" using s2(2) s1(2) ig by simp
  have col: "set (columns ?out) = set (columns ?t) \<union> {code, ?name}
                 \<union> (case df of DataFrame _ \<Rightarrow> {''geometry''} | GeoDataFrame _ \<Rightarrow> {})"
    using s2(3) s1(3) cg by auto
  have len: "length (rows ?out) = ?n" using s2(4) s1(4) lg by simp
  have row: "(\<forall>c. c \<noteq> code \<and> c \<noteq> ?name \<and> c \<noteq> ''geometry''
                       \<longrightarrow> cell_of (rows ?out ! i) c = cell_of (rows ?t ! i) c)
               \<and> (\<forall>p. ?pt (rows ?t ! i) = Some p \<longrightarrow>
                     cell_of (rows ?out ! i) ''geometry'' = Geom p
                   \<and> (\<forall>j < length shapes.
                         contains (shape_geometry (shapes ! j)) p
                         \<and> (\<forall>k < j. \<not> contains (shape_geometry (shapes ! k)) p)
                         \<longrightarrow> cell_of (rows ?out ! i) code = Str (shape_code (shapes ! j))
                           \<and> cell_of (rows ?out ! i) ?name = Str (shape_name (shapes ! j)))
                   \<and> ((\<forall>s \<in> set shapes. \<not> contains (shape_geometry s) p)
                         \<longrightarrow> cell_of (rows ?out ! i) code = Str ''onbekend''
                           \<and> cell_of (rows ?out ! i) ?name = Str ''onbekend''))"
    if i: "i < ?n" for i
  proof -
    obtain c n where cn: "cc ! i = (c, n)" by (cases "cc ! i")
    have fi: "?f (rows g ! i) = Inr (c, n)" using m i lg cn by simp
    have oi: "rows ?out ! i = AList.update ?name n (AList.update code c (rows g ! i))"
      using s2(5) s1(5) s1(4) i lg m cn by simp
    have vc: "cell_of (rows ?out ! i) code = c" and vn: "cell_of (rows ?out ! i) ?name = n"
      unfolding oi using lc by (simp_all add: cell_of_update)
    have a: "\<forall>c. c \<noteq> code \<and> c \<noteq> ?name \<and> c \<noteq> ''geometry''
               \<longrightarrow> cell_of (rows ?out ! i) c = cell_of (rows ?t ! i) c"
      unfolding oi using rg i by (simp add: cell_of_update)
    have b: "cell_of (rows ?out ! i) ''geometry'' = Geom p
           \<and> (\<forall>j < length shapes.
                 contains (shape_geometry (shapes ! j)) p
                 \<and> (\<forall>k < j. \<not> contains (shape_geometry (shapes ! k)) p)
                 \<longrightarrow> cell_of (rows ?out ! i) code = Str (shape_code (shapes ! j))
                   \<and> cell_of (rows ?out ! i) ?name = Str (shape_name (shapes ! j)))
           \<and> ((\<forall>s \<in> set shapes. \<not> contains (shape_geometry s) p)
                 \<longrightarrow> cell_of (rows ?out ! i) code = Str ''onbekend''
                   \<and> cell_of (rows ?out ! i) ?name = Str ''onbekend'')"
      if p: "?pt (rows ?t ! i) = Some p" for p
    proof (intro conjI allI impI)
      have g: "map_of (rows g ! i) ''geometry'' = Some (Geom p)" using rg i p by blast
      have "cell_of (rows g ! i) ''geometry'' = Geom p" using g by (simp add: cell_of_def)
      then show "cell_of (rows ?out ! i) ''geometry'' = Geom p"
        unfolding oi using lc by (simp add: cell_of_update)
      {
        fix j
        assume j: "j < length shapes"
          and h: "contains (shape_geometry (shapes ! j)) p
                  \<and> (\<forall>k < j. \<not> contains (shape_geometry (shapes ! k)) p)"
        have "?f (rows g ! i) = Inr (Str (shape_code (shapes ! j)), Str (shape_name (shapes ! j)))"
          using add_level_column_first [OF g j] h by blast
        with fi have "Inr (c, n) = (Inr (Str (shape_code (shapes ! j)), Str (shape_name (shapes ! j)))
                                     :: error + ('a, 'b) cell \<times> ('a, 'b) cell)"
          by (rule trans [OF sym])
        then have "c = Str (shape_code (shapes ! j))" "n = Str (shape_name (shapes ! j))"
          by auto
        then show "cell_of (rows ?out ! i) code = Str (shape_code (shapes ! j))"
          and "cell_of (rows ?out ! i) ?name = Str (shape_name (shapes ! j))"
          using vc vn by simp_all
      }
      {
        assume h: "\<forall>s \<in> set shapes. \<not> contains (shape_geometry s) p"
        have "?f (rows g ! i) = Inr (Str ''onbekend'', Str ''onbekend'')"
          using add_level_column_none [OF g] h by blast
        with fi have "Inr (c, n) = (Inr (Str ''onbekend'', Str ''onbekend'')
                                     :: error + ('a, 'b) cell \<times> ('a, 'b) cell)"
          by (rule trans [OF sym])
        then have "c = Str ''onbekend''" "n = Str ''onbekend''" by auto
        then show "cell_of (rows ?out ! i) code = Str ''onbekend''"
          and "cell_of (rows ?out ! i) ?name = Str ''onbekend''"
          using vc vn by simp_all
      }
    qed
    from a b show ?thesis by blast
  qed
  show ?thesis
    by (rule exI [of _ ?out]) (intro conjI res s2(1) idx col len allI impI row)
qed

theorem aggregate_point_data_assigns_region_witness:
  "aggregate_point_data grid_contains grid_points_from_xy (GeoDataFrame ex_points) ex_shapes
       ''Buurt'' ''latitude'' ''longitude''
     = Inr \<lparr>columns = [''id'', ''geometry'', ''BU_CODE'', ''BU_NAAM''],
            dtypes = [(''id'', Numeric), (''geometry'', Geometry), (''BU_CODE'', Object),
                      (''BU_NAAM'', Object)],
            index = [IntLabel 0, IntLabel 1],
            rows = [[(''id'', Num 1), (''geometry'', Geom (Point 12 5)),
                     (''BU_CODE'', Str ''BU08551002''), (''BU_NAAM'', Str ''Binnenstad Oost'')],
                    [(''id'', Num 2), (''geometry'', Geom (Point 30 30)),
                     (''BU_CODE'', Str ''onbekend''), (''BU_NAAM'', Str ''onbekend'')]]\<rparr>
   \<and> (\<exists>out. aggregate_point_data grid_contains grid_points_from_xy (GeoDataFrame ex_points)
                ex_shapes ''Buurt'' ''latitude'' ''longitude'' = Inr out
             \<and> wf_frame out \<and> length (rows out) = 2)"
proof -
  let ?df = "GeoDataFrame ex_points :: (int, grid_geometry) table"
  have 1: "get_code ''Buurt'' = Some ''BU_CODE''" by (simp add: get_code_def)
  have 2: "wf_frame (frame_of ?df)"
    by (simp add: wf_frame_def frame_of_def ex_points_def keys_def cell_of_def)
  have 3: "rows (frame_of ?df) \<noteq> []" by (simp add: frame_of_def ex_points_def)
  have 4: "index (frame_of ?df) = default_index (length (rows (frame_of ?df)))"
    by code_simp
  have 5: "\<forall>t. ?df = DataFrame t \<longrightarrow> ''longitude'' \<in> set (columns t) \<and> ''latitude'' \<in> set (columns t)"
    by simp
  have 6: "\<forall>row \<in> set (rows (frame_of ?df)).
             point_of grid_points_from_xy ?df ''latitude'' ''longitude'' row \<noteq> None"
    by (simp add: point_of_def cell_of_def frame_of_def ex_points_def)
  note w = aggregate_point_data_assigns_region [OF 1 2 3 4 5 6, of grid_contains ex_shapes]
  have e: "\<exists>out. aggregate_point_data grid_contains grid_points_from_xy ?df ex_shapes
                ''Buurt'' ''latitude'' ''longitude'' = Inr out
             \<and> wf_frame out \<and> length (rows out) = 2"
  proof -
    from w obtain out where o1: "aggregate_point_data grid_contains grid_points_from_xy ?df
        ex_shapes ''Buurt'' ''latitude'' ''longitude'' = Inr out"
      and o2: "wf_frame out"
      and o3: "length (rows out) = length (rows (frame_of ?df))"
      by - (erule exE, (erule conjE)+, rule that, assumption+)
    from o3 have "length (rows out) = 2" by (simp add: frame_of_def ex_points_def)
    with o1 o2 show ?thesis by blast
  qed
  have v: "aggregate_point_data grid_contains grid_points_from_xy ?df ex_shapes
       ''Buurt'' ''latitude'' ''longitude''
     = Inr \<lparr>columns = [''id'', ''geometry'', ''BU_CODE'', ''BU_NAAM''],
            dtypes = [(''id'', Numeric), (''geometry'', Geometry), (''BU_CODE'', Object),
                      (''BU_NAAM'', Object)],
            index = [IntLabel 0, IntLabel 1],
            rows = [[(''id'', Num 1), (''geometry'', Geom (Point 12 5)),
                     (''BU_CODE'', Str ''BU08551002''), (''BU_NAAM'', Str ''Binnenstad Oost'')],
                    [(''id'', Num 2), (''geometry'', Geom (Point 30 30)),
                     (''BU_CODE'', Str ''onbekend''), (''BU_NAAM'', Str ''onbekend'')]]\<rparr>"
    by code_simp
  from v e show ?thesis by (intro conjI)
qed

text \<open>
  Not every points table is joined in this way. On the table without rows the join
  raises. In the table whose rows are labelled 1 and 7 the
  first row, whose point lies in the second shape only, receives the sentinel pair, and
  the second row receives missing values. A missing geometry raises. A plain table
  receives three columns, the geometry column too.
\<close>

theorem aggregate_point_data_not_for_every_table:
  "aggregate_point_data grid_contains grid_points_from_xy (GeoDataFrame ex_empty) ex_shapes
       ''Buurt'' ''latitude'' ''longitude'' = Inl AttributeError
   \<and> aggregate_point_data grid_contains grid_points_from_xy (GeoDataFrame ex_relabelled) ex_shapes
       ''Buurt'' ''latitude'' ''longitude''
     = Inr \<lparr>columns = [''id'', ''geometry'', ''BU_CODE'', ''BU_NAAM''],
            dtypes = [(''id'', Numeric), (''geometry'', Geometry), (''BU_CODE'', Object),
                      (''BU_NAAM'', Object)],
            index = [IntLabel 1, IntLabel 7],
            rows = [[(''id'', Num 1), (''geometry'', Geom (Point 12 5)),
                     (''BU_CODE'', Str ''onbekend''), (''BU_NAAM'', Str ''onbekend'')],
                    [(''id'', Num 2), (''geometry'', Geom (Point 30 30)),
                     (''BU_CODE'', Null), (''BU_NAAM'', Null)]]\<rparr>
   \<and> grid_contains (Box 10 0 20 10) (Point 12 5)
   \<and> aggregate_point_data grid_contains grid_points_from_xy (GeoDataFrame ex_missing) ex_shapes
       ''Buurt'' ''latitude'' ''longitude'' = Inl TypeError
   \<and> aggregate_point_data grid_contains grid_points_from_xy (DataFrame ex_latlong) ex_shapes
       ''Buurt'' ''latitude'' ''longitude''
     = Inr \<lparr>columns = [''longitude'', ''latitude'', ''geometry'', ''BU_CODE'', ''BU_NAAM''],
            dtypes = [(''longitude'', Numeric), (''latitude'', Numeric), (''geometry'', Geometry),
                      (''BU_CODE'', Object), (''BU_NAAM'', Object)],
            index = [IntLabel 0],
            rows = [[(''longitude'', Num 12), (''latitude'', Num 5),
                     (''geometry'', Geom (Point 12 5)),
                     (''BU_CODE'', Str ''BU08551002''), (''BU_NAAM'', Str ''Binnenstad Oost'')]]\<rparr>"
  by code_simp

subsection \<open>Grouping and reducing\<close>

lemma keyed_keys:
  "map fst (filter (\<lambda>(k, row). Null \<notin> set k) (map (\<lambda>row. (group_key by row, row)) rs))
   = filter (\<lambda>k. Null \<notin> set k) (map (group_key by) rs)"
  by (induction rs) simp_all

lemma keyed_group:
  "Null \<notin> set k \<Longrightarrow>
   map snd (filter (\<lambda>(k', row). k' = k)
              (filter (\<lambda>(k, row). Null \<notin> set k) (map (\<lambda>row. (group_key by row, row)) rs)))
   = filter (\<lambda>r. group_key by r = k) rs"
  by (induction rs) auto

lemma groupby_groups:
  assumes "set by \<subseteq> set (columns t)"
  shows "groupby t by =
           Inr (map (\<lambda>k. (k, filter (\<lambda>r. group_key by r = k) (rows t)))
                  (sort_key (map rank)
                     (remdups (filter (\<lambda>k. Null \<notin> set k) (map (group_key by) (rows t))))))"
proof -
  let ?keyed = "filter (\<lambda>(k, row). Null \<notin> set k) (map (\<lambda>row. (group_key by row, row)) (rows t))"
  let ?ks = "sort_key (map rank) (remdups (map fst ?keyed))"
  have "map (\<lambda>k. (k, map snd (filter (\<lambda>(k', row). k' = k) ?keyed))) ?ks
        = map (\<lambda>k. (k, filter (\<lambda>r. group_key by r = k) (rows t))) ?ks"
  proof (rule map_cong [OF refl])
    fix k assume "k \<in> set ?ks"
    then have "Null \<notin> set k" unfolding keyed_keys by simp
    from keyed_group [OF this]
    show "(k, map snd (filter (\<lambda>(k', row). k' = k) ?keyed))
               = (k, filter (\<lambda>r. group_key by r = k) (rows t))"
      by (rule arg_cong)
  qed
  moreover have "list_all (\<lambda>c. c \<in> set (columns t)) by"
    using assms by (auto simp: list_all_iff)
  ultimately show ?thesis
    unfolding groupby_def Let_def keyed_keys by (simp only: if_False not_True_eq_False simp_thms)
qed

lemma map_of_tabulate:
  "map_of (map (\<lambda>c. (c, f c)) cs) c = (if c \<in> set cs then Some (f c) else None)"
  by (induction cs) auto

lemma cell_of_reduced_row:
  assumes "c \<notin> set by" and "c \<in> set others"
  shows "cell_of (zip by k @ map (\<lambda>c. (c, f c)) others) c = f c"
proof -
  have "map_of (zip by k) c = None"
  proof (rule ccontr)
    assume "map_of (zip by k) c \<noteq> None"
    then obtain v where "map_of (zip by k) c = Some v" by blast
    then have "(c, v) \<in> set (zip by k)" by (rule map_of_SomeD)
    then have "c \<in> set by" by (rule set_zip_leftD)
    with assms(1) show False by simp
  qed
  then show ?thesis
    using assms(2) by (simp add: cell_of_def map_add_def map_of_tabulate)
qed

lemma group_key_reduced_row:
  assumes "distinct by" and "length k = length by"
  shows "group_key by (zip by k @ rest) = k"
proof (rule nth_equalityI)
  show "length (group_key by (zip by k @ rest)) = length k"
    using assms(2) by (simp add: group_key_def)
next
  fix i assume "i < length (group_key by (zip by k @ rest))"
  then have i: "i < length by" by (simp add: group_key_def)
  have "map_of (zip by k) (by ! i) = Some (k ! i)"
    using assms i by (simp add: map_of_zip_nth)
  then show "group_key by (zip by k @ rest) ! i = k ! i"
    using i by (simp add: group_key_def cell_of_def map_add_def)
qed

lemma count_cells_group:
  "count_cells (map (\<lambda>row. cell_of row c) (filter (\<lambda>r. group_key by r = k) rs))
   = Num (of_nat (length (filter (\<lambda>r. group_key by r = k \<and> cell_of r c \<noteq> Null) rs)))"
  by (simp add: count_cells_def filter_map comp_def conj_commute)

text \<open>
  Claim C4. Let the group keys be distinct columns of the table and the target column
  another column of it. Then the reducer \<^verbatim>\<open>frequency\<close> yields one output row per distinct
  combination of key cells among the rows that have no missing key cell, in ascending
  order of the keys, and the target cell of an output row is the number of rows of its
  group whose target cell is not missing, whatever these cells are.
\<close>

theorem group_values_frequency_counts_cells:
  assumes keys: "by_columns groupby_value = Inr by"
    and dist: "distinct by"
    and cols: "set by \<subseteq> set (columns t)"
    and target: "target \<in> set (columns t)"
    and nokey: "target \<notin> set by"
  shows "\<exists>out. group_values parse_float t groupby_value (Some ''frequency'') group_to = Inr out
           \<and> distinct (map (group_key by) (rows out))
           \<and> set (map (group_key by) (rows out))
               = {k \<in> set (map (group_key by) (rows t)). Null \<notin> set k}
           \<and> sorted (map (map rank \<circ> group_key by) (rows out))
           \<and> (\<forall>row \<in> set (rows out).
                 cell_of row target
                 = Num (of_nat (length (filter (\<lambda>r. group_key by r = group_key by row
                                                    \<and> cell_of r target \<noteq> Null) (rows t)))))"
proof -
  let ?ks = "sort_key (map rank)
               (remdups (filter (\<lambda>k. Null \<notin> set k) (map (group_key by) (rows t))))"
  let ?group = "\<lambda>k. filter (\<lambda>r. group_key by r = k) (rows t)"
  let ?others = "filter (\<lambda>c. c \<notin> set by \<and> keeps Count t c) (columns t)"
  let ?mk = "\<lambda>k. zip by k
                @ map (\<lambda>c. (c, reduce Count (map (\<lambda>row. cell_of row c) (?group k)))) ?others"
  let ?out = "\<lparr>columns = by @ ?others,
               dtypes = map (\<lambda>c. (c, dtype_of t c)) by
                          @ map (\<lambda>c. (c, reduced_dtype Count (dtype_of t c))) ?others,
               index = default_index (length ?ks),
               rows = map ?mk ?ks\<rparr>"
  have res: "group_values parse_float t groupby_value (Some ''frequency'') group_to = Inr ?out"
    by (simp add: group_values_def keys groupby_reduce_def groupby_groups [OF cols] dist
          Let_def comp_def)
  have len: "length k = length by" if "k \<in> set ?ks" for k
    using that by (auto simp: group_key_def)
  have key: "group_key by (?mk k) = k" if "k \<in> set ?ks" for k
    by (rule group_key_reduced_row [OF dist len [OF that]])
  have ks: "map (group_key by) (rows ?out) = ?ks"
  proof -
    have "map (group_key by) (map ?mk ?ks) = map (\<lambda>k. k) ?ks"
      unfolding map_map comp_def by (rule map_cong [OF refl]) (rule key)
    then show ?thesis by simp
  qed
  have a: "distinct (map (group_key by) (rows ?out))"
    unfolding ks by simp
  have b: "set (map (group_key by) (rows ?out))
             = {k \<in> set (map (group_key by) (rows t)). Null \<notin> set k}"
    unfolding ks by auto
  have c: "sorted (map (map rank \<circ> group_key by) (rows ?out))"
  proof -
    have "map (map rank \<circ> group_key by) (rows ?out) = map (map rank) (map (group_key by) (rows ?out))"
      by simp
    also have "\<dots> = map (map rank) ?ks" unfolding ks ..
    finally show ?thesis by (simp only: sorted_sort_key)
  qed
  have d: "cell_of row target
             = Num (of_nat (length (filter (\<lambda>r. group_key by r = group_key by row
                                                \<and> cell_of r target \<noteq> Null) (rows t))))"
    if "row \<in> set (rows ?out)" for row
  proof -
    from that obtain k where k: "k \<in> set ?ks" and row: "row = ?mk k" by auto
    have o: "target \<in> set ?others" using target nokey by simp
    have "cell_of row target = reduce Count (map (\<lambda>row. cell_of row target) (?group k))"
      unfolding row by (rule cell_of_reduced_row [OF nokey o])
    also have "\<dots> = Num (of_nat (length (filter (\<lambda>r. group_key by r = k
                                                \<and> cell_of r target \<noteq> Null) (rows t))))"
      by (simp only: reduce.simps count_cells_group)
    finally show ?thesis unfolding row key [OF k] .
  qed
  from a b c d show ?thesis
    by (intro exI [of _ ?out] conjI res ballI)
qed

theorem group_values_frequency_counts_cells_witness:
  "group_values digits_float ex_trees (PStr ''WK_CODE'') (Some ''frequency'') (Some ''soort'')
     = Inr \<lparr>columns = [''WK_CODE'', ''soort'', ''hoogte'', ''jaar''],
            dtypes = [(''WK_CODE'', Object), (''soort'', Numeric), (''hoogte'', Numeric),
                      (''jaar'', Numeric)],
            index = [IntLabel 0, IntLabel 1],
            rows = [[(''WK_CODE'', Str ''WK085510''), (''soort'', Num 2), (''hoogte'', Num 1),
                     (''jaar'', Num 2)],
                    [(''WK_CODE'', Str ''WK085511''), (''soort'', Num 1), (''hoogte'', Num 1),
                     (''jaar'', Num 1)]]\<rparr>
   \<and> (\<exists>out. group_values digits_float ex_trees (PStr ''WK_CODE'') (Some ''frequency'')
                (Some ''soort'') = Inr out
             \<and> distinct (map (group_key [''WK_CODE'']) (rows out)))"
proof -
  have 1: "by_columns (PStr ''WK_CODE'') = Inr [''WK_CODE'']" by (simp add: by_columns_def)
  have 2: "distinct [''WK_CODE'']" by simp
  have 3: "set [''WK_CODE''] \<subseteq> set (columns ex_trees)" by (simp add: ex_trees_def)
  have 4: "''soort'' \<in> set (columns ex_trees)" by (simp add: ex_trees_def)
  have 5: "''soort'' \<notin> set [''WK_CODE'']" by simp
  note w = group_values_frequency_counts_cells [OF 1 2 3 4 5, of digits_float "Some ''soort''"]
  have e: "\<exists>out. group_values digits_float ex_trees (PStr ''WK_CODE'') (Some ''frequency'')
                (Some ''soort'') = Inr out
             \<and> distinct (map (group_key [''WK_CODE'']) (rows out))"
  proof -
    from w obtain out where o1: "group_values digits_float ex_trees (PStr ''WK_CODE'')
          (Some ''frequency'') (Some ''soort'') = Inr out"
      and o2: "distinct (map (group_key [''WK_CODE'']) (rows out))"
      by - (erule exE, (erule conjE)+, rule that, assumption+)
    then show ?thesis by blast
  qed
  have v: "group_values digits_float ex_trees (PStr ''WK_CODE'') (Some ''frequency'') (Some ''soort'')
     = Inr \<lparr>columns = [''WK_CODE'', ''soort'', ''hoogte'', ''jaar''],
            dtypes = [(''WK_CODE'', Object), (''soort'', Numeric), (''hoogte'', Numeric),
                      (''jaar'', Numeric)],
            index = [IntLabel 0, IntLabel 1],
            rows = [[(''WK_CODE'', Str ''WK085510''), (''soort'', Num 2), (''hoogte'', Num 1),
                     (''jaar'', Num 2)],
                    [(''WK_CODE'', Str ''WK085511''), (''soort'', Num 1), (''hoogte'', Num 1),
                     (''jaar'', Num 1)]]\<rparr>"
    by code_simp
  from v e show ?thesis by (intro conjI)
qed

text \<open>
  The count is not the number of rows of the group. Two rows of the example have the key
  \<^verbatim>\<open>WK085510\<close>, one of them without a height, and the height of the group is 1; the row
  without a key is in no group.
\<close>

theorem group_values_frequency_is_not_row_count:
  "group_values digits_float ex_trees (PStr ''WK_CODE'') (Some ''frequency'') (Some ''hoogte'')
     = Inr \<lparr>columns = [''WK_CODE'', ''soort'', ''hoogte'', ''jaar''],
            dtypes = [(''WK_CODE'', Object), (''soort'', Numeric), (''hoogte'', Numeric),
                      (''jaar'', Numeric)],
            index = [IntLabel 0, IntLabel 1],
            rows = [[(''WK_CODE'', Str ''WK085510''), (''soort'', Num 2), (''hoogte'', Num 1),
                     (''jaar'', Num 2)],
                    [(''WK_CODE'', Str ''WK085511''), (''soort'', Num 1), (''hoogte'', Num 1),
                     (''jaar'', Num 1)]]\<rparr>
   \<and> count_list (map (group_key [''WK_CODE'']) (rows ex_trees)) [Str ''WK085510''] = 2
   \<and> length (rows ex_trees) = 4"
  by code_simp

lemma map_raise_map:
  "(\<And>x. x \<in> set xs \<Longrightarrow> f x = Inr (g x)) \<Longrightarrow> map_raise f xs = Inr (map g xs)"
  by (induction xs) simp_all

lemma to_float_numeric: "conforms Numeric v \<Longrightarrow> to_float parse_float v = Inr v"
  by (cases v) (simp_all add: to_float_def)

lemma zip_update_same:
  "(\<And>row. row \<in> set rs \<Longrightarrow> AList.update c (g row) row = row) \<Longrightarrow>
   map (\<lambda>(row, v). AList.update c v row) (zip rs (map g rs)) = rs"
  by (induction rs) simp_all

lemma set_column_same:
  assumes wf: "wf_frame t" and d: "map_of (dtypes t) c = Some d"
  shows "set_column c d (map (\<lambda>row. cell_of row c) (rows t)) t = t"
proof -
  have "(c, d) \<in> set (dtypes t)" using d by (rule map_of_SomeD)
  then have "c \<in> set (keys (dtypes t))" by (force simp: keys_def)
  then have c: "c \<in> set (columns t)" using wf by (simp add: wf_frame_def)
  have "AList.update c (cell_of row c) row = row" if "row \<in> set (rows t)" for row
  proof -
    have "keys row = columns t" using wf that by (simp add: wf_frame_def list_all_iff)
    then have "c \<in> set (map fst row)" using c by (simp add: keys_def)
    then have "c \<in> fst ` set row" by simp
    then obtain v where "map_of row c = Some v"
      by (metis map_of_eq_None_iff not_Some_eq)
    then show ?thesis by (simp add: cell_of_def update_triv)
  qed
  then have "map (\<lambda>(row, v). AList.update c v row) (zip (rows t) (map (\<lambda>row. cell_of row c) (rows t)))
             = rows t"
    by (rule zip_update_same)
  then show ?thesis
    using c d by (simp add: set_column_def update_triv)
qed

lemma astype_float_numeric:
  assumes wf: "wf_frame t" and d: "map_of (dtypes t) c = Some Numeric"
  shows "astype_float parse_float t (Some c) = Inr t"
proof -
  have "(c, Numeric) \<in> set (dtypes t)" using d by (rule map_of_SomeD)
  then have "c \<in> set (keys (dtypes t))" by (force simp: keys_def)
  then have c: "c \<in> set (columns t)" using wf by (simp add: wf_frame_def)
  have "to_float parse_float (cell_of row c) = Inr (cell_of row c)" if "row \<in> set (rows t)" for row
    using wf_frame_dtype [OF wf that d] by (rule to_float_numeric)
  then have "map_raise (\<lambda>row. to_float parse_float (cell_of row c)) (rows t)
             = Inr (map (\<lambda>row. cell_of row c) (rows t))"
    by (rule map_raise_map)
  then show ?thesis
    using c by (simp add: astype_float_def set_column_same [OF wf d])
qed

text \<open>
  Claim C5. A reducer that is not one of the five takes the mean of the groups without
  casting the target column to numbers first. Its result is the result of \<^verbatim>\<open>mean\<close> whenever
  the target column is a numeric column of the table.
\<close>

theorem group_values_unknown_reducer_is_mean:
  assumes wf: "wf_frame t"
    and unknown: "group_method \<notin> {Some ''mean'', Some ''max'', Some ''min'', Some ''sum'',
                                   Some ''frequency''}"
    and numeric: "map_of (dtypes t) target = Some Numeric"
  shows "group_values parse_float t groupby_value group_method (Some target)
         = group_values parse_float t groupby_value (Some ''mean'') (Some target)"
  using unknown by (simp add: group_values_def astype_float_numeric [OF wf numeric])

theorem group_values_unknown_reducer_is_mean_witness:
  "group_values digits_float ex_trees (PStr ''WK_CODE'') (Some ''median'') (Some ''hoogte'')
     = group_values digits_float ex_trees (PStr ''WK_CODE'') (Some ''mean'') (Some ''hoogte'')
   \<and> group_values digits_float ex_trees (PStr ''WK_CODE'') (Some ''median'') (Some ''hoogte'')
     = Inr \<lparr>columns = [''WK_CODE'', ''hoogte'', ''jaar''],
            dtypes = [(''WK_CODE'', Object), (''hoogte'', Numeric), (''jaar'', Numeric)],
            index = [IntLabel 0, IntLabel 1],
            rows = [[(''WK_CODE'', Str ''WK085510''), (''hoogte'', Num 8), (''jaar'', Num 2005)],
                    [(''WK_CODE'', Str ''WK085511''), (''hoogte'', Num 12), (''jaar'', Num 1990)]]\<rparr>"
proof -
  have 1: "wf_frame ex_trees" by code_simp
  have 2: "Some ''median'' \<notin> {Some ''mean'', Some ''max'', Some ''min'', Some ''sum'',
                                Some ''frequency''}"
    by simp
  have 3: "map_of (dtypes ex_trees) ''hoogte'' = Some Numeric" by (simp add: ex_trees_def)
  note w = group_values_unknown_reducer_is_mean [OF 1 2 3, of digits_float "PStr ''WK_CODE''"]
  have v: "group_values digits_float ex_trees (PStr ''WK_CODE'') (Some ''median'') (Some ''hoogte'')
     = Inr \<lparr>columns = [''WK_CODE'', ''hoogte'', ''jaar''],
            dtypes = [(''WK_CODE'', Object), (''hoogte'', Numeric), (''jaar'', Numeric)],
            index = [IntLabel 0, IntLabel 1],
            rows = [[(''WK_CODE'', Str ''WK085510''), (''hoogte'', Num 8), (''jaar'', Num 2005)],
                    [(''WK_CODE'', Str ''WK085511''), (''hoogte'', Num 12), (''jaar'', Num 1990)]]\<rparr>"
    by code_simp
  from w v show ?thesis by (intro conjI)
qed

text \<open>
  With a target column of texts the two differ: \<^verbatim>\<open>mean\<close> raises at the cast, and another
  reducer returns the means of the numeric columns, without the target column.
\<close>

theorem group_values_unknown_reducer_differs_from_mean:
  "group_values digits_float ex_trees (PStr ''WK_CODE'') (Some ''mean'') (Some ''soort'')
     = Inl ValueError
   \<and> group_values digits_float ex_trees (PStr ''WK_CODE'') (Some ''median'') (Some ''soort'')
     = Inr \<lparr>columns = [''WK_CODE'', ''hoogte'', ''jaar''],
            dtypes = [(''WK_CODE'', Object), (''hoogte'', Numeric), (''jaar'', Numeric)],
            index = [IntLabel 0, IntLabel 1],
            rows = [[(''WK_CODE'', Str ''WK085510''), (''hoogte'', Num 8), (''jaar'', Num 2005)],
                    [(''WK_CODE'', Str ''WK085511''), (''hoogte'', Num 12), (''jaar'', Num 1990)]]\<rparr>"
  by code_simp

subsection \<open>The layers of the map\<close>

lemma if_cong_swap: "(if \<not> A then x else y) = (if A then y else x)"
  by simp

lemma rows_filter_rows:
  "rows (filter_rows (map f xs) (t\<lparr>rows := xs\<rparr>)) = map snd (filter fst (zip (map f xs) xs))"
  by (simp add: filter_rows_def)

lemma zip_mask: "map snd (filter fst (zip (map f xs) xs)) = filter f xs"
  by (induction xs) simp_all

lemma column_of_filter_rows:
  assumes "c \<in> set (columns t)"
  shows "column_of (filter_rows (map (\<lambda>v. P v) (map (\<lambda>row. cell_of row c) (rows t))) t) (PStr c)
         = Inr (filter P (map (\<lambda>row. cell_of row c) (rows t)))"
proof -
  have "map snd (filter fst (zip (map (\<lambda>v. P v) (map (\<lambda>row. cell_of row c) (rows t))) (rows t)))
        = filter (\<lambda>row. P (cell_of row c)) (rows t)"
    using zip_mask [of "\<lambda>row. P (cell_of row c)" "rows t"] by (simp add: comp_def)
  then show ?thesis
    using assms by (simp add: column_of_def name_of_def filter_rows_def filter_map comp_def)
qed

lemma refuses_codes_iff:
  "refuses_codes code_start region_codes
   \<longleftrightarrow> \<not> ((\<exists>s. Str s \<in> set region_codes \<and> take 2 s = code_start)
          \<and> (\<exists>s. Str s \<in> set region_codes \<and> length s \<in> {10, 8, 6}))"
proof -
  have "is_str v \<longleftrightarrow> (\<exists>s. v = Str s)" for v :: "('a, 'b) cell"
    by (cases v) (simp_all add: is_str_def)
  then have a: "list_ex is_str region_codes \<longleftrightarrow> (\<exists>s. Str s \<in> set region_codes)"
    by (auto simp: list_ex_iff)
  have b: "list_all (\<lambda>v. str_slice2 v \<noteq> Some code_start) region_codes
           \<longleftrightarrow> \<not> (\<exists>s. Str s \<in> set region_codes \<and> take 2 s = code_start)"
    by (auto simp: list_all_iff str_slice2_def split: cell.splits)
  have c: "list_all (\<lambda>v. str_len v \<noteq> Some n) region_codes
           \<longleftrightarrow> \<not> (\<exists>s. Str s \<in> set region_codes \<and> length s = n)" for n
    by (auto simp: list_all_iff str_len_def split: cell.splits)
  show ?thesis
    unfolding refuses_codes_def a b c by auto
qed

text \<open>
  Claim C7. Let a map layer name a dataset of the store and a column of it for the
  region codes, and let its level be the level of the map, one of the three. The region
  codes are the cells of that column other than the sentinel. The layer is drawn when
  some region code is a text that begins with the two letters of the level and some
  region code is a text of 10, 8 or 6 characters. Otherwise the layer is passed over:
  the figure stays as it is and one error that names the column is added.
\<close>

theorem add_map_layer_tests_region_codes:
  assumes dataset: "selected_dataset value = PStr dataset_name"
      "map_of all_data dataset_name = Some gdf"
    and column: "map_labels value = PStr labels" "labels \<in> set (columns gdf)"
    and level: "map_level value = PStr (self_level figure_wrapper)"
      "map_of code_starts (self_level figure_wrapper) = Some code_start"
  shows "add_map_layer process_choroplethmapbox process_categorical_choroplethmapbox
             process_bubble_mapbox parse_float py_type all_data value (figure_wrapper, r)
         = (let region_codes = filter (\<lambda>v. v \<noteq> Str ''onbekend'')
                                 (map (\<lambda>row. cell_of row labels) (rows gdf))
            in if (\<exists>s. Str s \<in> set region_codes \<and> take 2 s = code_start)
                  \<and> (\<exists>s. Str s \<in> set region_codes \<and> length s \<in> {10, 8, 6})
               then draw_map_layer process_choroplethmapbox process_categorical_choroplethmapbox
                      process_bubble_mapbox parse_float py_type
                      (filter_rows (map (\<lambda>row. cell_of row labels \<noteq> Str ''onbekend'') (rows gdf))
                         gdf)
                      value (figure_wrapper, r)
               else Inr (figure_wrapper,
                         r\<lparr>error := error r
                              @ [''Kaart visualisatie'' @ code_column_error value]\<rparr>))"
proof -
  let ?cells = "map (\<lambda>row. cell_of row labels) (rows gdf)"
  let ?kept = "filter_rows (map (\<lambda>v. v \<noteq> Str ''onbekend'') ?cells) gdf"
  have c1: "column_of gdf (PStr labels) = Inr ?cells"
    using column(2) by (simp add: column_of_def name_of_def)
  have c2: "column_of ?kept (PStr labels) = Inr (filter (\<lambda>v. v \<noteq> Str ''onbekend'') ?cells)"
    by (rule column_of_filter_rows [OF column(2)])
  have k: "?kept = filter_rows (map (\<lambda>row. cell_of row labels \<noteq> Str ''onbekend'') (rows gdf)) gdf"
    by (simp add: comp_def)
  note c3 = c2 [unfolded k]
  have e: "append_error ''map_vis'' (code_column_error value) r
           = Inr (r\<lparr>error := error r @ [''Kaart visualisatie'' @ code_column_error value]\<rparr>)"
    by (simp add: append_error_def error_names_def getitem_def)
  have step: "add_map_layer process_choroplethmapbox process_categorical_choroplethmapbox
             process_bubble_mapbox parse_float py_type all_data value (figure_wrapper, r)
      = (if refuses_codes code_start (filter (\<lambda>v. v \<noteq> Str ''onbekend'') ?cells)
         then Inr (figure_wrapper,
                   r\<lparr>error := error r @ [''Kaart visualisatie'' @ code_column_error value]\<rparr>)
         else draw_map_layer process_choroplethmapbox process_categorical_choroplethmapbox
                process_bubble_mapbox parse_float py_type
                (filter_rows (map (\<lambda>row. cell_of row labels \<noteq> Str ''onbekend'') (rows gdf)) gdf)
                value (figure_wrapper, r))"
    unfolding add_map_layer_def Let_def
    by (simp only: dataset column(1) level(1) name_of_def pyval.case option.case getitem_def
          level(2) bind_Inr c1 c2 c3 prod.case e k simp_thms if_False if_True)
  show ?thesis
    unfolding step Let_def refuses_codes_iff by (rule if_cong_swap)
qed

theorem add_map_layer_tests_region_codes_witness:
  "add_map_layer ex_process ex_process ex_process digits_float ex_py_type
       [(''bomen'', ex_wijk_codes)] ex_map_layer (ex_wrapper, \<lparr>warning = [], error = []\<rparr>)
     = Inr (ex_wrapper,
            \<lparr>warning = [],
             error = [''Kaart visualisatie: De kolom BU_CODE in bomen bevat geen (correcte) Buurt codes'']\<rparr>)"
proof -
  have 1: "selected_dataset ex_map_layer = PStr ''bomen''" by (simp add: ex_map_layer_def)
  have 2: "map_of [(''bomen'', ex_wijk_codes)] ''bomen'' = Some ex_wijk_codes" by simp
  have 3: "map_labels ex_map_layer = PStr ''BU_CODE''" by (simp add: ex_map_layer_def)
  have 4: "''BU_CODE'' \<in> set (columns ex_wijk_codes)" by (simp add: ex_wijk_codes_def)
  have 5: "map_level ex_map_layer = PStr (self_level ex_wrapper)"
    by (simp add: ex_map_layer_def ex_wrapper_def)
  have 6: "map_of code_starts (self_level ex_wrapper) = Some ''BU''"
    by (simp add: code_starts_def ex_wrapper_def)
  have 7: "filter (\<lambda>v. v \<noteq> Str ''onbekend'')
             (map (\<lambda>row. cell_of row ''BU_CODE'') (rows ex_wijk_codes))
           = [Str ''WK085510'']"
    by (simp add: ex_wijk_codes_def cell_of_def)
  have 8: "''Kaart visualisatie'' @ code_column_error ex_map_layer
           = ''Kaart visualisatie: De kolom BU_CODE in bomen bevat geen (correcte) Buurt codes''"
    by (simp add: code_column_error_def ex_map_layer_def py_str_def)
  show ?thesis
    using add_map_layer_tests_region_codes [OF 1 2 3 4 5 6, of ex_process ex_process ex_process
        digits_float ex_py_type "\<lparr>warning = [], error = []\<rparr>"]
    unfolding 7 8 Let_def by simp
qed

text \<open>
  A column of region codes need not hold codes only: with one code of a neighbourhood
  among cells that are no codes, the layer is drawn and no error is added.
\<close>

theorem add_map_layer_draws_wrong_codes:
  "add_map_layer ex_process ex_process ex_process digits_float ex_py_type
       [(''bomen'', ex_codes)] ex_map_layer (ex_wrapper, \<lparr>warning = [], error = []\<rparr>)
     = Inr (ex_wrapper\<lparr>self_figure := [''bomen per buurt'']\<rparr>, \<lparr>warning = [], error = []\<rparr>)
   \<and> map (group_key [''BU_CODE'']) (rows ex_codes) = [[Str ''BU08551001''], [Str ''XX''], [Num 5]]"
  by code_simp

text \<open>
  Claim C2. In the example the neighbourhood \<^verbatim>\<open>BU08551001\<close> has the category \<^verbatim>\<open>eik\<close> in
  two rows and the category \<^verbatim>\<open>wilg\<close> in one. The grouping gives it the category \<^verbatim>\<open>wilg\<close>,
  the greatest one, with the count 2 of the other category; the loop adds the warning,
  which says that the most frequent category is shown.
\<close>

theorem categorical_groups_takes_greatest_category:
  "categorical_groups ex_kinds ''BU_CODE'' ''soort''
     = Inr \<lparr>columns = [''BU_CODE'', ''soort'', ''hoogte''],
            dtypes = [(''BU_CODE'', Object), (''soort'', Object), (''hoogte'', Numeric)],
            index = [IntLabel 0, IntLabel 1],
            rows = [[(''BU_CODE'', Str ''BU08551001''), (''soort'', Str ''wilg''), (''hoogte'', Num 2)],
                    [(''BU_CODE'', Str ''BU08551002''), (''soort'', Str ''beuk''), (''hoogte'', Num 1)]]\<rparr>
   \<and> count_list (map (group_key [''BU_CODE'', ''soort'']) (rows ex_kinds))
         [Str ''BU08551001'', Str ''eik''] = 2
   \<and> count_list (map (group_key [''BU_CODE'', ''soort'']) (rows ex_kinds))
         [Str ''BU08551001'', Str ''wilg''] = 1
   \<and> add_map_layer ex_process ex_process ex_process digits_float ex_py_type
         [(''soorten'', ex_kinds)] ex_categorical_layer (ex_wrapper, \<lparr>warning = [], error = []\<rparr>)
       = Inr (ex_wrapper\<lparr>self_figure := [''soorten'']\<rparr>,
              \<lparr>warning = [''Kaart visualisatie'' @ categorical_warning ex_categorical_layer],
               error = []\<rparr>)"
  by code_simp

subsection \<open>The chart figures\<close>






end
